theory Spec2Isabelle
  imports Complex_Main "HOL-Library.Sublist" "HOL-Library.Multiset" "HOL-Library.AList"
    "HOL-Library.Char_ord" "HOL-Library.List_Lexorder"
begin

section \<open>JavaScript strings and values\<close>

text \<open>
  Strings of the TypeScript sources are modelled as \<^typ>\<open>string\<close>. Case conversion,
  whitespace and the regular-expression class \<^verbatim>\<open>\w\<close> are modelled on ASCII;
  characters outside ASCII are left unchanged by \<open>toLowerCase\<close> and are neither
  whitespace nor word characters.
\<close>

definition upperLetters :: string where
  "upperLetters = ''ABCDEFGHIJKLMNOPQRSTUVWXYZ''"

definition lowerLetters :: string where
  "lowerLetters = ''abcdefghijklmnopqrstuvwxyz''"

definition lowerChar :: "char \<Rightarrow> char" where
  "lowerChar c = (case map_of (zip upperLetters lowerLetters) c of Some l \<Rightarrow> l | None \<Rightarrow> c)"

text \<open>\<^verbatim>\<open>String.prototype.toLowerCase\<close>\<close>

definition toLowerCase :: "string \<Rightarrow> string" where
  "toLowerCase s = map lowerChar s"

text \<open>The double-quote character of the template literals.\<close>

definition dq :: string where
  "dq = [CHR 0x22]"

text \<open>
  An optional string parameter (\<^verbatim>\<open>context?: string\<close>): \<open>None\<close> is
  \<^verbatim>\<open>undefined\<close>. In a condition, \<^verbatim>\<open>undefined\<close> and the empty
  string are both falsy.
\<close>

definition truthy :: "string option \<Rightarrow> bool" where
  "truthy v = (case v of None \<Rightarrow> False | Some s \<Rightarrow> s \<noteq> [])"

text \<open>
  The value of a property read \<^verbatim>\<open>obj[k]\<close> on a plain object (an object literal or
  an object made by \<^verbatim>\<open>JSON.parse\<close>) whose own properties are strings. The sources
  declare such a read as a string; at run time the read also finds the members that the
  object inherits from \<^verbatim>\<open>Object.prototype\<close>. \<open>Str s\<close> is a string,
  \<open>Inherited k\<close> is the member of \<^verbatim>\<open>Object.prototype\<close> named \<open>k\<close> (a built-in
  function, or the prototype object itself for \<^verbatim>\<open>__proto__\<close>), and \<open>Undefined\<close> is
  \<^verbatim>\<open>undefined\<close>.
\<close>

datatype jsval = Str string | Inherited string | Undefined

text \<open>The property names of \<^verbatim>\<open>Object.prototype\<close>.\<close>

definition objectPrototypeMembers :: "string list" where
  "objectPrototypeMembers =
     [''constructor'', ''__defineGetter__'', ''__defineSetter__'', ''hasOwnProperty'',
      ''__lookupGetter__'', ''__lookupSetter__'', ''isPrototypeOf'', ''propertyIsEnumerable'',
      ''toString'', ''valueOf'', ''__proto__'', ''toLocaleString'']"

text \<open>
  \<^verbatim>\<open>obj[k]\<close>, where the association list \<open>props\<close> holds the own properties of
  \<open>obj\<close>: an own property comes before an inherited member of the same name.
\<close>

definition propertyRead :: "(string \<times> string) list \<Rightarrow> string \<Rightarrow> jsval" where
  "propertyRead props k =
     (case map_of props k of
        Some s \<Rightarrow> Str s
      | None \<Rightarrow> if k \<in> set objectPrototypeMembers then Inherited k else Undefined)"

text \<open>The truthiness of such a value, and \<^verbatim>\<open>a || b\<close>.\<close>

definition jsTruthy :: "jsval \<Rightarrow> bool" where
  "jsTruthy v = (case v of Str s \<Rightarrow> s \<noteq> [] | Inherited k \<Rightarrow> True | Undefined \<Rightarrow> False)"

definition jsOr :: "jsval \<Rightarrow> jsval \<Rightarrow> jsval" where
  "jsOr a b = (if jsTruthy a then a else b)"

text \<open>
  The errors thrown: a SyntaxError by the constructor \<^verbatim>\<open>RegExp\<close> (with the pattern),
  a TypeError by a property read on \<^verbatim>\<open>undefined\<close> (with the name of the property),
  and the errors that the sources throw themselves (with their message).
\<close>

datatype error = SyntaxError string | TypeError string | Error string

section \<open>The content store (ManualDataService)\<close>

text \<open>
  A \<^verbatim>\<open>Map<string, V>\<close> is an association list in insertion order, read with
  \<^const>\<open>map_of\<close>. The \<^verbatim>\<open>Record<string, string>\<close> of a definition is the
  association list of its own properties, read with \<^const>\<open>propertyRead\<close>; it is
  \<open>None\<close> when the stored object has no property \<^verbatim>\<open>contextual\<close> (the files are
  stored as parsed, without a check of their shape).
\<close>

record Definition =
  word :: string
  general :: string
  contextual :: "(string \<times> string) list option"
  difficulty :: string
  part_of_speech :: string
  pronunciation :: "string option"
  audio_file :: "string option"

record SentenceExample =
  sentence :: string
  translation :: "string option"
  s_context :: string
  s_difficulty :: string
  s_audio_file :: "string option"
  context_note :: "string option"

record SimilarWord =
  sw_word :: string
  sw_meaning :: string
  similarity_score :: rat
  usage_note :: string

record ManualDataService =
  definitionsDB :: "(string \<times> Definition) list"
  sentencesDB :: "(string \<times> SentenceExample list) list"
  similarWordsDB :: "(string \<times> SimilarWord list) list"
  distractorsDB :: "(string \<times> string list) list"

definition notFoundMessage :: "string \<Rightarrow> string" where
  "notFoundMessage w =
     ''Definition not found for '' @ dq @ w @ dq @ ''. Please add it to the definitions database.''"

text \<open>
  \<^verbatim>\<open>getDefinition(word, context?)\<close>. The read
  \<^verbatim>\<open>definition.contextual[context.toLowerCase()]\<close> is made only for a truthy context
  (\<^verbatim>\<open>&&\<close> does not evaluate its right operand otherwise); it throws a TypeError when
  the stored definition has no \<^verbatim>\<open>contextual\<close>, and its value is returned when it is
  truthy.
\<close>

definition getDefinition :: "ManualDataService \<Rightarrow> string \<Rightarrow> string option \<Rightarrow> error + jsval" where
  "getDefinition svc w ctx =
     (case map_of (definitionsDB svc) (toLowerCase w) of
        None \<Rightarrow> Inr (Str (notFoundMessage w))
      | Some d \<Rightarrow>
          if truthy ctx then
            (case contextual d of
               None \<Rightarrow> Inl (TypeError (toLowerCase (the ctx)))
             | Some props \<Rightarrow>
                 if jsTruthy (propertyRead props (toLowerCase (the ctx)))
                 then Inr (propertyRead props (toLowerCase (the ctx)))
                 else Inr (Str (general d)))
          else Inr (Str (general d)))"

text \<open>\<^verbatim>\<open>generateBasicDistractors(word)\<close>\<close>

definition generateBasicDistractors :: "string \<Rightarrow> string list" where
  "generateBasicDistractors w =
     [''incorrect definition A'', ''incorrect definition B'', ''incorrect definition C'']"

text \<open>The key \<^verbatim>\<open>contextKey\<close> computed at the head of \<^verbatim>\<open>getDistractors\<close>.\<close>

definition contextKey :: "string \<Rightarrow> string option \<Rightarrow> string" where
  "contextKey w ctx =
     (if truthy ctx then toLowerCase (the ctx) @ ''_'' @ toLowerCase w else toLowerCase w)"

text \<open>\<^verbatim>\<open>getDistractors(word, context?)\<close>; \<^verbatim>\<open>slice(0, 3)\<close> is \<open>take 3\<close>.\<close>

definition getDistractors :: "ManualDataService \<Rightarrow> string \<Rightarrow> string option \<Rightarrow> string list" where
  "getDistractors svc w ctx =
     (let specificDistractors = map_of (distractorsDB svc) (contextKey w ctx) in
      if specificDistractors \<noteq> None \<and> length (the specificDistractors) \<ge> 3
      then take 3 (the specificDistractors)
      else
        (let generalDistractors =
               (case map_of (distractorsDB svc) (toLowerCase w) of Some ds \<Rightarrow> ds | None \<Rightarrow> [])
         in if length generalDistractors \<ge> 3 then take 3 generalDistractors
            else generateBasicDistractors w))"

text \<open>\<^verbatim>\<open>getAllWords()\<close>: the keys of the definitions map, in insertion order.\<close>

definition getAllWords :: "ManualDataService \<Rightarrow> string list" where
  "getAllWords svc = map fst (definitionsDB svc)"

text \<open>The entries stored under a key of the distractor map (none when the key is absent).\<close>

definition storedDistractors :: "ManualDataService \<Rightarrow> string \<Rightarrow> string list" where
  "storedDistractors svc k = (case map_of (distractorsDB svc) k of Some ds \<Rightarrow> ds | None \<Rightarrow> [])"

subsection \<open>Example stores\<close>

definition bankDefinition :: Definition where
  "bankDefinition =
     \<lparr>word = ''bank'', general = ''financial institution'',
      contextual = Some [(''geography'', ''river edge''), (''daily'', '''')],
      difficulty = ''beginner'', part_of_speech = ''noun'',
      pronunciation = None, audio_file = None\<rparr>"

text \<open>A definition as parsed from a file entry that has no \<^verbatim>\<open>contextual\<close>.\<close>

definition bareDefinition :: Definition where
  "bareDefinition =
     \<lparr>word = ''loan'', general = ''money lent'', contextual = None,
      difficulty = ''beginner'', part_of_speech = ''noun'',
      pronunciation = None, audio_file = None\<rparr>"

definition bankStore :: ManualDataService where
  "bankStore =
     \<lparr>definitionsDB = [(''bank'', bankDefinition)], sentencesDB = [], similarWordsDB = [],
      distractorsDB = [(''daily_bank'', [''a bench'', ''a blanket''])]\<rparr>"

definition curatedStore :: ManualDataService where
  "curatedStore =
     \<lparr>definitionsDB = [(''bank'', bankDefinition)], sentencesDB = [], similarWordsDB = [],
      distractorsDB =
        [(''daily_bank'', [''a bench'', ''a blanket'', ''a basket'', ''a bucket'']),
         (''bank'', [''a river'', ''a boat'', ''a bridge''])]\<rparr>"

section \<open>Random numbers\<close>

text \<open>
  \<^verbatim>\<open>Math.random()\<close> is read from an explicit stream of draws. A draw \<open>r\<close> stands for
  the number \<open>(r mod 2^53) / 2^53\<close> of the interval from 0 (included) to 1 (excluded), the
  grid on which the engines produce their doubles. Products with a draw are taken exactly;
  the rounding of the double product is not modelled.
\<close>

type_synonym rng = "nat \<Rightarrow> nat"

definition nextRng :: "rng \<Rightarrow> rng" where
  "nextRng g = (\<lambda>n. g (Suc n))"

text \<open>\<^verbatim>\<open>Math.floor(Math.random() * n)\<close>\<close>

definition randomFloor :: "rng \<Rightarrow> nat \<Rightarrow> nat" where
  "randomFloor g n = ((g 0 mod 2 ^ 53) * n) div 2 ^ 53"

text \<open>\<^verbatim>\<open>Math.random() > 0.5\<close>\<close>

definition randomAboveHalf :: "rng \<Rightarrow> bool" where
  "randomAboveHalf g = (g 0 mod 2 ^ 53 > 2 ^ 52)"

section \<open>Answer validation\<close>

definition isSpace :: "char \<Rightarrow> bool" where
  "isSpace c = (c \<in> set [CHR 0x20, CHR 0x09, CHR 0x0A, CHR 0x0B, CHR 0x0C, CHR 0x0D])"

definition isWordChar :: "char \<Rightarrow> bool" where
  "isWordChar c = (c \<in> set (upperLetters @ lowerLetters @ ''0123456789_''))"

text \<open>\<^verbatim>\<open>String.prototype.trim\<close>\<close>

definition trim :: "string \<Rightarrow> string" where
  "trim s = rev (dropWhile isSpace (rev (dropWhile isSpace s)))"

text \<open>\<^verbatim>\<open>s.includes(sub)\<close>: \<open>sub\<close> occurs in \<open>s\<close> as a contiguous run.\<close>

fun includesStr :: "string \<Rightarrow> string \<Rightarrow> bool" where
  "includesStr [] sub = (sub = [])"
| "includesStr (c # cs) sub = (prefix sub (c # cs) \<or> includesStr cs sub)"

text \<open>\<^verbatim>\<open>a || b\<close> on an optional string.\<close>

definition orElse :: "string option \<Rightarrow> string \<Rightarrow> string" where
  "orElse a b = (if truthy a then the a else b)"

record Exercise =
  e_id :: string
  e_type :: string
  question :: string
  options :: "string list option"
  correct :: string
  e_word :: string
  e_context :: "string option"
  e_difficulty :: string
  explanation :: "string option"

record ValidationResult =
  isCorrect :: bool
  v_explanation :: string
  feedback :: string

text \<open>\<^verbatim>\<open>ExerciseTemplateService.normalizeAnswer\<close>\<close>

definition normalizeAnswer :: "string \<Rightarrow> string" where
  "normalizeAnswer answer = toLowerCase (trim answer)"

text \<open>\<^verbatim>\<open>ExerciseTemplateService.validateAnswer\<close>\<close>

definition validateAnswer :: "string \<Rightarrow> string \<Rightarrow> Exercise \<Rightarrow> ValidationResult" where
  "validateAnswer userAnswer correctAnswer exercise =
     (let isCorrect = (normalizeAnswer userAnswer = normalizeAnswer correctAnswer) in
      \<lparr>isCorrect = isCorrect,
       v_explanation = orElse (explanation exercise) (''The correct answer is: '' @ correctAnswer),
       feedback =
         (if isCorrect
          then ''Correct! '' @ dq @ e_word exercise @ dq @ '' ''
                 @ orElse (explanation exercise) correctAnswer
          else ''Incorrect. The right answer is: '' @ correctAnswer)\<rparr>)"

text \<open>
  The local \<^verbatim>\<open>normalizeAnswer\<close> of \<^verbatim>\<open>ManualWordService.validateAnswer\<close>:
  trim, lower-case, then delete every character that is neither a word character nor
  whitespace.
\<close>

definition ManualWordService_normalizeAnswer :: "string \<Rightarrow> string" where
  "ManualWordService_normalizeAnswer answer =
     filter (\<lambda>c. isWordChar c \<or> isSpace c) (toLowerCase (trim answer))"

text \<open>
  The test \<^verbatim>\<open>u > c * 0.7\<close> on two lengths, in the double arithmetic of the
  language. The literal \<^verbatim>\<open>0.7\<close> is the double \<open>6305039478318694 / 2^53\<close>. The
  lengths are exact; their product with the literal, \<open>c * 6305039478318694 / 2^53\<close>, is
  rounded to 53 significant bits, a tie going to the even significand. \<open>roundToDouble n\<close>
  is this rounding on the numerator \<open>n\<close> of a fraction \<open>n / 2^53\<close>.
\<close>

fun bitLength :: "nat \<Rightarrow> nat" where
  "bitLength n = (if n = 0 then 0 else Suc (bitLength (n div 2)))"

declare bitLength.simps [simp del]

definition roundToDouble :: "nat \<Rightarrow> nat" where
  "roundToDouble n =
     (if bitLength n \<le> 53 then n
      else
        (let shift = bitLength n - 53;
             q = n div 2 ^ shift;
             r = n mod 2 ^ shift;
             half = 2 ^ (shift - 1)
         in (if r > half \<or> (r = half \<and> odd q) then q + 1 else q) * 2 ^ shift))"

definition exceedsSeventyPercent :: "nat \<Rightarrow> nat \<Rightarrow> bool" where
  "exceedsSeventyPercent u c = (u * 2 ^ 53 > roundToDouble (c * 6305039478318694))"

text \<open>\<^verbatim>\<open>ManualWordService.validateAnswer\<close>\<close>

definition ManualWordService_validateAnswer ::
  "string \<Rightarrow> string \<Rightarrow> string \<Rightarrow> string \<Rightarrow> string \<Rightarrow> ValidationResult" where
  "ManualWordService_validateAnswer userAnswer correctAnswer context baseLanguage targetLanguage =
     (let normalizedUser = ManualWordService_normalizeAnswer userAnswer;
          normalizedCorrect = ManualWordService_normalizeAnswer correctAnswer;
          isExactMatch = (normalizedUser = normalizedCorrect);
          isPartialMatch = (includesStr normalizedUser normalizedCorrect
                            \<or> includesStr normalizedCorrect normalizedUser);
          isCorrect = (isExactMatch
                       \<or> (isPartialMatch
                            \<and> exceedsSeventyPercent (length normalizedUser)
                                 (length normalizedCorrect)))
      in if isCorrect then
           \<lparr>isCorrect = isCorrect,
            v_explanation = ''Correct! '' @ dq @ correctAnswer @ dq @ '' is the right answer.'',
            feedback = ''Well done! Your answer '' @ dq @ userAnswer @ dq @ '' is correct.''\<rparr>
         else if isPartialMatch then
           \<lparr>isCorrect = isCorrect,
            v_explanation = ''Close, but not quite right. The correct answer is ''
               @ dq @ correctAnswer @ dq @ ''.'',
            feedback = ''You're on the right track with '' @ dq @ userAnswer @ dq
               @ '', but the exact answer is '' @ dq @ correctAnswer @ dq @ ''.''\<rparr>
         else
           \<lparr>isCorrect = isCorrect,
            v_explanation = ''Incorrect. The correct answer is '' @ dq @ correctAnswer @ dq @ ''.'',
            feedback = ''Not quite. Your answer '' @ dq @ userAnswer @ dq @ '' doesn't match ''
               @ dq @ correctAnswer @ dq @ ''. Try again!''\<rparr>)"

section \<open>The exercise generator (ExerciseTemplateService)\<close>

text \<open>
  \<^verbatim>\<open>shuffleArray\<close>: the loop runs \<open>i\<close> from \<open>length - 1\<close> down to 1; the
  destructuring swap reads both elements before it writes.
\<close>

fun shuffleLoop :: "nat \<Rightarrow> 'a list \<Rightarrow> rng \<Rightarrow> 'a list \<times> rng" where
  "shuffleLoop 0 shuffled g = (shuffled, g)"
| "shuffleLoop (Suc k) shuffled g =
     (let i = Suc k;
          j = randomFloor g (i + 1)
      in shuffleLoop k (shuffled[i := shuffled ! j, j := shuffled ! i]) (nextRng g))"

definition shuffleArray :: "'a list \<Rightarrow> rng \<Rightarrow> 'a list \<times> rng" where
  "shuffleArray array g = shuffleLoop (length array - 1) array g"

text \<open>Decimal rendering of a number in a template literal.\<close>

definition digitChar :: "nat \<Rightarrow> char" where
  "digitChar d = ''0123456789'' ! d"

fun showNat :: "nat \<Rightarrow> string" where
  "showNat n = (if n < 10 then [digitChar n] else showNat (n div 10) @ [digitChar (n mod 10)])"

declare showNat.simps [simp del]

text \<open>
  The pattern source of \<^verbatim>\<open>new RegExp(`\\b${word}\\b`, flags)\<close>: the word as given,
  not escaped, between two \<^verbatim>\<open>\b\<close>.
\<close>

definition wordPattern :: "string \<Rightarrow> string" where
  "wordPattern w = [CHR 0x5C, CHR ''b''] @ w @ [CHR 0x5C, CHR ''b'']"

text \<open>
  The regular-expression engine of the language is a parameter; it is given the pattern
  source and the flags with which the code builds the expression. For
  \<^verbatim>\<open>re = new RegExp(source, flags)\<close>, \<open>rx_valid source flags\<close> tells whether the
  constructor accepts the pattern (it throws a SyntaxError otherwise),
  \<open>rx_replace source flags s t\<close> is \<^verbatim>\<open>s.replace(re, t)\<close>, and
  \<open>rx_match source flags s\<close> is the matched text \<^verbatim>\<open>s.match(re)[0]\<close>, or \<open>None\<close>
  when \<^verbatim>\<open>s.match(re)\<close> is \<^verbatim>\<open>null\<close>.
\<close>

record RegExpEngine =
  rx_valid :: "string \<Rightarrow> string \<Rightarrow> bool"
  rx_replace :: "string \<Rightarrow> string \<Rightarrow> string \<Rightarrow> string \<Rightarrow> string"
  rx_match :: "string \<Rightarrow> string \<Rightarrow> string \<Rightarrow> string option"

text \<open>\<^verbatim>\<open>getSentenceExamples(word, context?)\<close>\<close>

definition getSentenceExamples ::
  "ManualDataService \<Rightarrow> string \<Rightarrow> string option \<Rightarrow> SentenceExample list" where
  "getSentenceExamples svc w ctx =
     (let sentences = (case map_of (sentencesDB svc) (toLowerCase w) of Some ss \<Rightarrow> ss | None \<Rightarrow> [])
      in if truthy ctx
         then filter (\<lambda>s. toLowerCase (s_context s) = toLowerCase (the ctx)) sentences
         else sentences)"

text \<open>\<^verbatim>\<open>getSimilarWords(word)\<close>\<close>

definition getSimilarWords :: "ManualDataService \<Rightarrow> string \<Rightarrow> SimilarWord list" where
  "getSimilarWords svc w =
     (case map_of (similarWordsDB svc) (toLowerCase w) of Some ws \<Rightarrow> ws | None \<Rightarrow> [])"

text \<open>A word of the request: \<^verbatim>\<open>{id, value, meaning}\<close>.\<close>

record WordItem =
  w_id :: string
  w_value :: string
  w_meaning :: string

text \<open>\<^verbatim>\<open>getDifficultyForWord(word)\<close>\<close>

definition getDifficultyForWord :: "string \<Rightarrow> string" where
  "getDifficultyForWord w =
     (if length w \<le> 4 then ''beginner''
      else if length w \<le> 8 then ''intermediate''
      else ''advanced'')"

text \<open>
  The generators read \<^verbatim>\<open>Date.now()\<close> once (parameter \<open>now\<close>) and draw from the
  random stream, which they return advanced. The context is a required string; it is passed
  on to the store as given.
\<close>

definition generateMultipleChoice ::
  "ManualDataService \<Rightarrow> WordItem \<Rightarrow> string \<Rightarrow> nat \<Rightarrow> rng \<Rightarrow> Exercise \<times> rng" where
  "generateMultipleChoice svc w context now g =
     (let distractors = getDistractors svc (w_value w) (Some context);
          allOptions = w_meaning w # take 3 distractors;
          (shuffledOptions, g') = shuffleArray allOptions g
      in (\<lparr>e_id = ''mc_'' @ w_id w @ ''_'' @ showNat now,
           e_type = ''multiple_choice'',
           question = ''What does '' @ dq @ w_value w @ dq @ '' mean''
              @ (if context \<noteq> [] then '' in the context of '' @ context else []) @ ''?'',
           options = Some shuffledOptions,
           correct = w_meaning w,
           e_word = w_value w,
           e_context = Some context,
           e_difficulty = getDifficultyForWord (w_value w),
           explanation = Some (dq @ w_value w @ dq @ '' means: '' @ w_meaning w)\<rparr>, g'))"

definition generateFillInBlank ::
  "RegExpEngine \<Rightarrow> ManualDataService \<Rightarrow> WordItem \<Rightarrow> string \<Rightarrow> nat \<Rightarrow> rng
     \<Rightarrow> error + Exercise \<times> rng" where
  "generateFillInBlank rx svc w context now g =
     (let sentences = getSentenceExamples svc (w_value w) (Some context) in
      if length sentences > 0 then
        (let s = sentences ! randomFloor g (length sentences) in
         if \<not> rx_valid rx (wordPattern (w_value w)) ''gi''
         then Inl (SyntaxError (wordPattern (w_value w)))
         else
           (let questionSentence =
                  rx_replace rx (wordPattern (w_value w)) ''gi'' (sentence s) ''_____'' in
            Inr (\<lparr>e_id = ''fib_'' @ w_id w @ ''_'' @ showNat now,
                  e_type = ''fill_in_blank'',
                  question = ''Fill in the blank: '' @ questionSentence,
                  options = None,
                  correct = w_value w,
                  e_word = w_value w,
                  e_context = Some context,
                  e_difficulty = getDifficultyForWord (w_value w),
                  explanation = Some (''The correct word is '' @ dq @ w_value w @ dq
                     @ '' which means: '' @ w_meaning w)\<rparr>, nextRng g)))
      else
        Inr (\<lparr>e_id = ''fib_'' @ w_id w @ ''_'' @ showNat now,
              e_type = ''fill_in_blank'',
              question = ''Complete the sentence: '' @ dq
                 @ ''I need to use the _____ to complete this task.'' @ dq
                 @ '' (Hint: '' @ w_meaning w @ '')'',
              options = None,
              correct = w_value w,
              e_word = w_value w,
              e_context = Some context,
              e_difficulty = getDifficultyForWord (w_value w),
              explanation = Some (''The correct word is '' @ dq @ w_value w @ dq)\<rparr>, g))"

definition generateMatching ::
  "ManualDataService \<Rightarrow> WordItem \<Rightarrow> string \<Rightarrow> nat \<Rightarrow> rng \<Rightarrow> Exercise \<times> rng" where
  "generateMatching svc w context now g =
     (let distractors = getDistractors svc (w_value w) (Some context);
          allOptions = w_meaning w # take 3 distractors;
          (shuffledOptions, g') = shuffleArray allOptions g
      in (\<lparr>e_id = ''match_'' @ w_id w @ ''_'' @ showNat now,
           e_type = ''matching'',
           question = ''Match '' @ dq @ w_value w @ dq @ '' with its correct definition:'',
           options = Some shuffledOptions,
           correct = w_meaning w,
           e_word = w_value w,
           e_context = Some context,
           e_difficulty = getDifficultyForWord (w_value w),
           explanation = Some (dq @ w_value w @ dq @ '' matches with: '' @ w_meaning w)\<rparr>, g'))"

text \<open>The statement \<^verbatim>\<open>`"${word.value}" means: ${text}`\<close> of a true/false exercise.\<close>

definition meansStatement :: "string \<Rightarrow> string \<Rightarrow> string" where
  "meansStatement v t = dq @ v @ dq @ '' means: '' @ t"

text \<open>\<^verbatim>\<open>distractors[0] || 'an incorrect definition'\<close>\<close>

definition falseDefinition :: "ManualDataService \<Rightarrow> WordItem \<Rightarrow> string \<Rightarrow> string" where
  "falseDefinition svc w context =
     orElse (case getDistractors svc (w_value w) (Some context) of [] \<Rightarrow> None | d # _ \<Rightarrow> Some d)
       ''an incorrect definition''"

definition generateTrueFalse ::
  "ManualDataService \<Rightarrow> WordItem \<Rightarrow> string \<Rightarrow> nat \<Rightarrow> rng \<Rightarrow> Exercise \<times> rng" where
  "generateTrueFalse svc w context now g =
     (let isTrue = randomAboveHalf g;
          (statement, correctAnswer) =
            (if isTrue then (meansStatement (w_value w) (w_meaning w), ''True'')
             else (meansStatement (w_value w) (falseDefinition svc w context), ''False''))
      in (\<lparr>e_id = ''tf_'' @ w_id w @ ''_'' @ showNat now,
           e_type = ''true_false'',
           question = ''True or False: '' @ statement,
           options = Some [''True'', ''False''],
           correct = correctAnswer,
           e_word = w_value w,
           e_context = Some context,
           e_difficulty = getDifficultyForWord (w_value w),
           explanation = Some (''The correct answer is '' @ correctAnswer @ ''. ''
              @ dq @ w_value w @ dq @ '' means: '' @ w_meaning w)\<rparr>, nextRng g))"

text \<open>\<^verbatim>\<open>s.split(' ')\<close> and \<^verbatim>\<open>ws.join(' ')\<close>\<close>

fun splitOn :: "char \<Rightarrow> string \<Rightarrow> string list" where
  "splitOn sep [] = [[]]"
| "splitOn sep (c # cs) =
     (if c = sep then [] # splitOn sep cs
      else (case splitOn sep cs of p # ps \<Rightarrow> (c # p) # ps | [] \<Rightarrow> [[c]]))"

fun joinWith :: "string \<Rightarrow> string list \<Rightarrow> string" where
  "joinWith sep [] = []"
| "joinWith sep [p] = p"
| "joinWith sep (p # q # ps) = p @ sep @ joinWith sep (q # ps)"

text \<open>\<^verbatim>\<open>xs.findIndex(p)\<close>; \<open>None\<close> is the result \<open>-1\<close>.\<close>

fun findIndex :: "('a \<Rightarrow> bool) \<Rightarrow> 'a list \<Rightarrow> nat option" where
  "findIndex p [] = None"
| "findIndex p (x # xs) =
     (if p x then Some 0 else (case findIndex p xs of None \<Rightarrow> None | Some i \<Rightarrow> Some (Suc i)))"

definition sentenceCompletionFallback :: "WordItem \<Rightarrow> string \<Rightarrow> nat \<Rightarrow> Exercise" where
  "sentenceCompletionFallback w context now =
     \<lparr>e_id = ''sc_'' @ w_id w @ ''_'' @ showNat now,
      e_type = ''sentence_completion'',
      question = ''Use '' @ dq @ w_value w @ dq
         @ '' in a sentence that demonstrates its meaning: '' @ w_meaning w,
      options = None,
      correct = w_value w,
      e_word = w_value w,
      e_context = Some context,
      e_difficulty = getDifficultyForWord (w_value w),
      explanation = Some (''Sample usage: The word '' @ dq @ w_value w @ dq
         @ '' can be used to express '' @ w_meaning w)\<rparr>"

definition generateSentenceCompletion ::
  "ManualDataService \<Rightarrow> WordItem \<Rightarrow> string \<Rightarrow> nat \<Rightarrow> rng \<Rightarrow> Exercise \<times> rng" where
  "generateSentenceCompletion svc w context now g =
     (let sentences = getSentenceExamples svc (w_value w) (Some context) in
      if length sentences > 0 then
        (let s = sentences ! randomFloor g (length sentences);
             ws = splitOn CHR '' '' (sentence s)
         in case findIndex (\<lambda>x. includesStr (toLowerCase x) (toLowerCase (w_value w))) ws of
              Some wordIndex \<Rightarrow>
                (let incompleteSentence =
                       joinWith '' ''
                         (map (\<lambda>(i, x). if i = wordIndex then ''_____'' else x)
                            (zip [0..<length ws] ws))
                 in (\<lparr>e_id = ''sc_'' @ w_id w @ ''_'' @ showNat now,
                      e_type = ''sentence_completion'',
                      question = ''Complete this sentence: '' @ incompleteSentence,
                      options = None,
                      correct = w_value w,
                      e_word = w_value w,
                      e_context = Some context,
                      e_difficulty = getDifficultyForWord (w_value w),
                      explanation = Some (''The complete sentence is: '' @ sentence s)\<rparr>,
                     nextRng g))
            | None \<Rightarrow> (sentenceCompletionFallback w context now, nextRng g))
      else (sentenceCompletionFallback w context now, g))"

text \<open>
  \<^verbatim>\<open>generateExerciseForWord\<close>: the type is
  \<^verbatim>\<open>exerciseTypes[Math.floor(Math.random() * exerciseTypes.length)]\<close>, which is
  \<^verbatim>\<open>undefined\<close> on an empty list; \<^verbatim>\<open>undefined\<close> and every unknown name take
  the \<^verbatim>\<open>default\<close> branch. The result type of the source is
  \<^verbatim>\<open>Exercise | null\<close>.
\<close>

definition generateExerciseForWord ::
  "RegExpEngine \<Rightarrow> ManualDataService \<Rightarrow> WordItem \<Rightarrow> string \<Rightarrow> string list \<Rightarrow> nat \<Rightarrow> rng
     \<Rightarrow> error + Exercise option \<times> rng" where
  "generateExerciseForWord rx svc w context exerciseTypes now g =
     (let i = randomFloor g (length exerciseTypes);
          exerciseType = (if i < length exerciseTypes then Some (exerciseTypes ! i) else None);
          g1 = nextRng g;
          some = (\<lambda>(e, g'). (Some e, g'))
      in if exerciseType = Some ''multiple_choice''
           then Inr (some (generateMultipleChoice svc w context now g1))
         else if exerciseType = Some ''fill_in_blank''
           then (case generateFillInBlank rx svc w context now g1 of
                   Inl err \<Rightarrow> Inl err | Inr r \<Rightarrow> Inr (some r))
         else if exerciseType = Some ''matching''
           then Inr (some (generateMatching svc w context now g1))
         else if exerciseType = Some ''true_false''
           then Inr (some (generateTrueFalse svc w context now g1))
         else if exerciseType = Some ''sentence_completion''
           then Inr (some (generateSentenceCompletion svc w context now g1))
         else Inr (some (generateMultipleChoice svc w context now g1)))"

text \<open>
  \<^verbatim>\<open>generateExercises\<close>. The store is taken as loaded, so the awaited
  \<^verbatim>\<open>loadAllData()\<close> returns at once. \<open>clock\<close> is the stream of the readings of
  \<^verbatim>\<open>Date.now()\<close>, one for each word. A thrown error ends the loop and rejects the
  promise.
\<close>

fun generateExercisesLoop ::
  "RegExpEngine \<Rightarrow> ManualDataService \<Rightarrow> WordItem list \<Rightarrow> string \<Rightarrow> string list
     \<Rightarrow> (nat \<Rightarrow> nat) \<Rightarrow> rng \<Rightarrow> Exercise list \<Rightarrow> error + Exercise list" where
  "generateExercisesLoop rx svc [] context exerciseTypes clock g exercises = Inr exercises"
| "generateExercisesLoop rx svc (w # ws) context exerciseTypes clock g exercises =
     (case generateExerciseForWord rx svc w context exerciseTypes (clock 0) g of
        Inl err \<Rightarrow> Inl err
      | Inr (wordExercise, g') \<Rightarrow>
          generateExercisesLoop rx svc ws context exerciseTypes (\<lambda>n. clock (Suc n)) g'
            (case wordExercise of Some e \<Rightarrow> exercises @ [e] | None \<Rightarrow> exercises))"

definition generateExercises ::
  "RegExpEngine \<Rightarrow> ManualDataService \<Rightarrow> WordItem list \<Rightarrow> string \<Rightarrow> string list \<Rightarrow> string
     \<Rightarrow> string \<Rightarrow> (nat \<Rightarrow> nat) \<Rightarrow> rng \<Rightarrow> error + Exercise list" where
  "generateExercises rx svc ws context exerciseTypes baseLanguage targetLanguage clock g =
     generateExercisesLoop rx svc ws context exerciseTypes clock g []"

subsection \<open>A regular-expression engine for plain words\<close>

text \<open>
  An instance of the engine, used to evaluate the examples. It covers the patterns
  \<^verbatim>\<open>\bword\b\<close> in which the word is not empty and is made of word characters and
  blanks, matched with the flag \<^verbatim>\<open>i\<close> and replaced with the flags
  \<^verbatim>\<open>gi\<close> (every match is replaced): such a pattern matches the word literally,
  ignoring case, between two word boundaries. Every other pattern is outside this
  instance, which reports it as invalid; the examples use none of them.
\<close>

text \<open>The word of a pattern \<^verbatim>\<open>\bword\b\<close>.\<close>

definition patternWord :: "string \<Rightarrow> string option" where
  "patternWord p =
     (if 4 \<le> length p \<and> take 2 p = [CHR 0x5C, CHR ''b'']
         \<and> drop (length p - 2) p = [CHR 0x5C, CHR ''b'']
      then Some (take (length p - 4) (drop 2 p)) else None)"

definition plainWord :: "string \<Rightarrow> bool" where
  "plainWord w = (w \<noteq> [] \<and> list_all (\<lambda>c. isWordChar c \<or> c = CHR '' '') w)"

definition matchesHere :: "string \<Rightarrow> bool \<Rightarrow> string \<Rightarrow> bool" where
  "matchesHere w prev rest =
     (length w \<le> length rest
      \<and> toLowerCase (take (length w) rest) = toLowerCase w
      \<and> prev \<noteq> isWordChar (hd rest)
      \<and> isWordChar (last (take (length w) rest))
          \<noteq> (case drop (length w) rest of [] \<Rightarrow> False | d # _ \<Rightarrow> isWordChar d))"

fun matchFrom :: "string \<Rightarrow> bool \<Rightarrow> string \<Rightarrow> string option" where
  "matchFrom w prev [] = None"
| "matchFrom w prev (c # cs) =
     (if matchesHere w prev (c # cs) then Some (take (length w) (c # cs))
      else matchFrom w (isWordChar c) cs)"

fun replaceFrom :: "string \<Rightarrow> string \<Rightarrow> bool \<Rightarrow> nat \<Rightarrow> string \<Rightarrow> string" where
  "replaceFrom w t prev skip [] = []"
| "replaceFrom w t prev skip (c # cs) =
     (if skip > 0 then replaceFrom w t (isWordChar c) (skip - 1) cs
      else if matchesHere w prev (c # cs)
        then t @ replaceFrom w t (isWordChar c) (length w - 1) cs
      else c # replaceFrom w t (isWordChar c) 0 cs)"

definition plainWordRegExp :: RegExpEngine where
  "plainWordRegExp =
     \<lparr>rx_valid = (\<lambda>p flags. flags \<in> set [''i'', ''gi'']
                     \<and> (case patternWord p of Some w \<Rightarrow> plainWord w | None \<Rightarrow> False)),
      rx_replace = (\<lambda>p flags s t.
                      case patternWord p of Some w \<Rightarrow> replaceFrom w t False 0 s | None \<Rightarrow> s),
      rx_match = (\<lambda>p flags s.
                    case patternWord p of Some w \<Rightarrow> matchFrom w False s | None \<Rightarrow> None)\<rparr>"

subsection \<open>Example requests\<close>

definition zephyrWord :: WordItem where
  "zephyrWord = \<lparr>w_id = ''1'', w_value = ''zephyr'', w_meaning = ''???''\<rparr>"

definition riverBankWord :: WordItem where
  "riverBankWord = \<lparr>w_id = ''7'', w_value = ''bank'', w_meaning = ''a river''\<rparr>"

definition zeroStream :: "nat \<Rightarrow> nat" where
  "zeroStream = (\<lambda>n. 0)"

definition moneyBankWord :: WordItem where
  "moneyBankWord = \<lparr>w_id = ''3'', w_value = ''bank'', w_meaning = ''financial institution''\<rparr>"

definition highStream :: "nat \<Rightarrow> nat" where
  "highStream = (\<lambda>n. 2 ^ 53 - 1)"

section \<open>The data loader (DataLoader)\<close>

record DataLoadStats =
  definitionsLoaded :: nat
  sentencesLoaded :: nat
  exerciseTemplatesLoaded :: nat
  similarWordsLoaded :: nat
  distractorsLoaded :: nat
  loadTime :: nat
  stats_errors :: "string list"

text \<open>
  What \<^verbatim>\<open>initializeWithRetry\<close> does besides computing its result: the calls of
  \<^verbatim>\<open>loadAllData\<close>, numbered as in the source, and the timers it awaits, in
  milliseconds.
\<close>

datatype event = Attempt nat | Wait nat

text \<open>
  \<^verbatim>\<open>initializeWithRetry(maxRetries)\<close>. The full load is a parameter: \<open>loadAllData k\<close>
  is the outcome of the call made by attempt \<open>k\<close>, either the statistics or the message of
  the error it throws. \<open>lastError\<close> starts as \<^verbatim>\<open>null\<close>, whose message renders as
  \<^verbatim>\<open>undefined\<close> in the text of the final error (\<open>retryFailureMessage\<close>).
\<close>

definition retryFailureMessage :: "nat \<Rightarrow> string option \<Rightarrow> string" where
  "retryFailureMessage maxRetries lastError =
     ''Failed to load data after '' @ showNat maxRetries @ '' attempts. Last error: ''
       @ (case lastError of Some msg \<Rightarrow> msg | None \<Rightarrow> ''undefined'')"

function retryLoop ::
  "(nat \<Rightarrow> string + DataLoadStats) \<Rightarrow> nat \<Rightarrow> nat \<Rightarrow> string option \<Rightarrow> event list
     \<Rightarrow> event list \<times> (string + DataLoadStats)" where
  "retryLoop loadAllData maxRetries attempt lastError trace =
     (if attempt \<le> maxRetries then
        (case loadAllData attempt of
           Inr stats \<Rightarrow> (trace @ [Attempt attempt], Inr stats)
         | Inl msg \<Rightarrow>
             retryLoop loadAllData maxRetries (attempt + 1) (Some msg)
               (if attempt < maxRetries
                then trace @ [Attempt attempt, Wait (min (1000 * 2 ^ (attempt - 1)) 5000)]
                else trace @ [Attempt attempt]))
      else (trace, Inl (retryFailureMessage maxRetries lastError)))"
  by pat_completeness auto
termination
  by (relation "measure (\<lambda>(loadAllData, maxRetries, attempt, lastError, trace).
        Suc maxRetries - attempt)") auto

declare retryLoop.simps [simp del]

definition initializeWithRetry ::
  "(nat \<Rightarrow> string + DataLoadStats) \<Rightarrow> nat \<Rightarrow> event list \<times> (string + DataLoadStats)" where
  "initializeWithRetry loadAllData maxRetries = retryLoop loadAllData maxRetries 1 None []"

text \<open>
  The expected course of \<open>c\<close> attempts that start with attempt \<open>a\<close>: after attempt \<open>k\<close>
  and before attempt \<open>k + 1\<close>, one wait of \<open>min(1000 * 2^(k-1), 5000)\<close> milliseconds.
\<close>

fun backoffTrace :: "nat \<Rightarrow> nat \<Rightarrow> event list" where
  "backoffTrace a 0 = []"
| "backoffTrace a (Suc 0) = [Attempt a]"
| "backoffTrace a (Suc (Suc c)) =
     [Attempt a, Wait (min (1000 * 2 ^ (a - 1)) 5000)] @ backoffTrace (Suc a) (Suc c)"

definition isAttempt :: "event \<Rightarrow> bool" where
  "isAttempt e = (case e of Attempt k \<Rightarrow> True | Wait ms \<Rightarrow> False)"

definition sampleStats :: DataLoadStats where
  "sampleStats =
     \<lparr>definitionsLoaded = 1, sentencesLoaded = 0, exerciseTemplatesLoaded = 0,
      similarWordsLoaded = 0, distractorsLoaded = 3, loadTime = 12, stats_errors = []\<rparr>"

text \<open>A source that fails twice and then loads, and one that always fails.\<close>

definition failsTwice :: "nat \<Rightarrow> string + DataLoadStats" where
  "failsTwice k = (if k < 3 then Inl ''Unexpected token'' else Inr sampleStats)"

definition alwaysFails :: "nat \<Rightarrow> string + DataLoadStats" where
  "alwaysFails k = Inl (''failure '' @ showNat k)"

section \<open>The passage composer (SentenceService, ManualWordService)\<close>

text \<open>A word of a reading request: \<^verbatim>\<open>{value, meaning}\<close>.\<close>

record PassageWord =
  p_value :: string
  p_meaning :: string

text \<open>A number of the passage composer: an integer, or \<^verbatim>\<open>NaN\<close>.\<close>

datatype jsnum = Num int | NaN

definition jsAdd :: "jsnum \<Rightarrow> jsnum \<Rightarrow> jsnum" where
  "jsAdd a b = (case a of Num x \<Rightarrow> (case b of Num y \<Rightarrow> Num (x + y) | NaN \<Rightarrow> NaN) | NaN \<Rightarrow> NaN)"

record HighlightedWord =
  h_word :: string
  h_definition :: string
  position :: jsnum

record ReadingPassage =
  rp_title :: jsval
  rp_content :: string
  rp_word_count :: nat
  rp_reading_time_minutes :: nat
  rp_highlighted_words :: "HighlightedWord list"
  rp_difficulty :: string
  rp_context :: string

record ReadingResult =
  title :: jsval
  content :: string
  word_count :: nat
  reading_time_minutes :: nat
  highlighted_words :: "HighlightedWord list"
  list_name :: string
  list_context :: "string option"
  level :: string
  words_included :: nat
  total_words_in_list :: nat

text \<open>
  The tables of \<^verbatim>\<open>generateIntroSentence\<close>, \<^verbatim>\<open>generateConclusionSentence\<close>
  and \<^verbatim>\<open>generateTitle\<close>: the own properties of the three object literals.
\<close>

definition intros :: "(string \<times> string) list" where
  "intros =
     [(''business'', ''In the business world, understanding key terminology is essential.''),
      (''daily'', ''In our everyday lives, we encounter many important concepts.''),
      (''technology'',
       ''Modern technology relies on specific terminology that's important to understand.''),
      (''sports'', ''Sports and athletic activities involve specialized vocabulary.''),
      (''geography'',
       ''Understanding geographical terms helps us describe the world around us.''),
      (''academic'', ''Academic study requires familiarity with specialized vocabulary.''),
      (''default'', ''Learning new vocabulary helps us communicate more effectively.'')]"

definition conclusions :: "(string \<times> string) list" where
  "conclusions =
     [(''business'', ''These terms form the foundation of business communication.''),
      (''daily'', ''These words help us express ourselves in daily conversations.''),
      (''technology'', ''Understanding these terms is key to navigating the digital world.''),
      (''sports'', ''This vocabulary is essential for discussing athletic activities.''),
      (''geography'', ''These terms help us describe and understand our physical world.''),
      (''academic'', ''This vocabulary is fundamental for academic success.''),
      (''default'', ''Mastering these words will improve your communication skills.'')]"

definition titles :: "(string \<times> string) list" where
  "titles =
     [(''business'', ''Business Vocabulary in Context''),
      (''daily'', ''Everyday English Conversations''),
      (''technology'', ''Technology Terms and Usage''),
      (''sports'', ''Sports and Athletic Vocabulary''),
      (''geography'', ''Geographical Terms and Descriptions''),
      (''academic'', ''Academic Vocabulary in Practice''),
      (''default'', ''Vocabulary in Context'')]"

text \<open>
  \<^verbatim>\<open>table[context] || table.default\<close>. The context is the key as given; for a
  context named like a member of \<^verbatim>\<open>Object.prototype\<close> the read yields that member,
  which is truthy.
\<close>

definition tableOrDefault :: "(string \<times> string) list \<Rightarrow> string \<Rightarrow> jsval" where
  "tableOrDefault table c = jsOr (propertyRead table c) (propertyRead table ''default'')"

definition generateIntroSentence :: "string \<Rightarrow> jsval" where
  "generateIntroSentence c = tableOrDefault intros c"

definition generateConclusionSentence :: "string \<Rightarrow> jsval" where
  "generateConclusionSentence c = tableOrDefault conclusions c"

definition generateTitle :: "string \<Rightarrow> jsval" where
  "generateTitle c = tableOrDefault titles c"

text \<open>
  The declared number of parameters (the property \<^verbatim>\<open>length\<close>) of the built-in
  functions of \<^verbatim>\<open>Object.prototype\<close>. The member \<^verbatim>\<open>__proto__\<close> is the
  prototype object, which has no \<^verbatim>\<open>length\<close>.
\<close>

definition memberLength :: "(string \<times> int) list" where
  "memberLength =
     [(''constructor'', 1), (''__defineGetter__'', 2), (''__defineSetter__'', 2),
      (''hasOwnProperty'', 1), (''__lookupGetter__'', 1), (''__lookupSetter__'', 1),
      (''isPrototypeOf'', 1), (''propertyIsEnumerable'', 1), (''toString'', 0),
      (''valueOf'', 0), (''toLocaleString'', 0)]"

text \<open>
  \<^verbatim>\<open>v.length\<close> as a number: the length of a string, the number of parameters of
  an inherited function, \<^verbatim>\<open>NaN\<close> for the \<^verbatim>\<open>undefined\<close> that the prototype
  object gives (the code adds 1 to it); on \<^verbatim>\<open>undefined\<close> the read throws.
\<close>

definition lengthOf :: "jsval \<Rightarrow> error + jsnum" where
  "lengthOf v =
     (case v of
        Str s \<Rightarrow> Inr (Num (int (length s)))
      | Inherited k \<Rightarrow> Inr (case map_of memberLength k of Some n \<Rightarrow> Num n | None \<Rightarrow> NaN)
      | Undefined \<Rightarrow> Inl (TypeError ''length''))"

text \<open>
  The string that \<^verbatim>\<open>v + ' '\<close> and \<^verbatim>\<open>s += v\<close> append for \<open>v\<close>. The text of
  a built-in function is defined by the implementation; it is the parameter \<open>fnText\<close>,
  from the name of the member. The prototype object converts to
  \<^verbatim>\<open>[object Object]\<close>.
\<close>

definition toText :: "(string \<Rightarrow> string) \<Rightarrow> jsval \<Rightarrow> string" where
  "toText fnText v =
     (case v of
        Str s \<Rightarrow> s
      | Inherited k \<Rightarrow> if k = ''__proto__'' then ''[object Object]'' else fnText k
      | Undefined \<Rightarrow> ''undefined'')"

text \<open>
  The sentences that \<^verbatim>\<open>getSentencesForWords\<close> stores for one word: the examples of
  the context, filtered by the difficulty when one is given.
\<close>

definition filteredSentences ::
  "ManualDataService \<Rightarrow> string option \<Rightarrow> string option \<Rightarrow> string \<Rightarrow> SentenceExample list" where
  "filteredSentences svc ctx dif w =
     (let sentences = getSentenceExamples svc w ctx
      in if truthy dif then filter (\<lambda>s. s_difficulty s = the dif) sentences else sentences)"

text \<open>
  \<^verbatim>\<open>getSentencesForWords(words, context?, difficulty?)\<close>. The map is keyed by the
  words as given; a repeated word is stored again with the same sentences.
\<close>

definition getSentencesForWords ::
  "ManualDataService \<Rightarrow> string list \<Rightarrow> string option \<Rightarrow> string option
     \<Rightarrow> (string \<times> SentenceExample list) list" where
  "getSentencesForWords svc ws ctx dif = map (\<lambda>w. (w, filteredSentences svc ctx dif w)) ws"

text \<open>\<^verbatim>\<open>s.indexOf(sub)\<close>\<close>

fun indexOfFrom :: "string \<Rightarrow> string \<Rightarrow> nat \<Rightarrow> int" where
  "indexOfFrom [] sub i = (if sub = [] then int i else - 1)"
| "indexOfFrom (c # cs) sub i =
     (if prefix sub (c # cs) then int i else indexOfFrom cs sub (Suc i))"

definition indexOf :: "string \<Rightarrow> string \<Rightarrow> int" where
  "indexOf s sub = indexOfFrom s sub 0"

text \<open>
  \<^verbatim>\<open>s.split(/\s+/)\<close>: the pieces between the maximal runs of whitespace (with an
  empty piece before a leading and after a trailing run).
\<close>

function splitWhitespace :: "string \<Rightarrow> string list" where
  "splitWhitespace [] = [[]]"
| "splitWhitespace (c # cs) =
     (if isSpace c then [] # splitWhitespace (dropWhile isSpace cs)
      else (case splitWhitespace cs of p # ps \<Rightarrow> (c # p) # ps | [] \<Rightarrow> [[c]]))"
  by pat_completeness auto
termination
  by (relation "measure length") (auto simp: le_imp_less_Suc length_dropWhile_le)

text \<open>
  The loop of \<^verbatim>\<open>generateReadingPassage\<close> over the requested words, on the state
  \<open>(passageContent, currentPosition, highlightedWords)\<close>.
\<close>

fun passageLoop ::
  "RegExpEngine \<Rightarrow> (string \<times> SentenceExample list) list \<Rightarrow> PassageWord list \<Rightarrow> string \<Rightarrow> jsnum
     \<Rightarrow> HighlightedWord list \<Rightarrow> error + string \<times> HighlightedWord list" where
  "passageLoop rx sentenceMap [] passageContent currentPosition highlightedWords =
     Inr (passageContent, highlightedWords)"
| "passageLoop rx sentenceMap (w # ws) passageContent currentPosition highlightedWords =
     (let sentences = (case map_of sentenceMap (p_value w) of Some ss \<Rightarrow> ss | None \<Rightarrow> []) in
      if length sentences > 0 then
        (let s = sentences ! 0 in
         if \<not> rx_valid rx (wordPattern (p_value w)) ''i''
         then Inl (SyntaxError (wordPattern (p_value w)))
         else
           (let highlightedWords' =
                  (case rx_match rx (wordPattern (p_value w)) ''i'' (sentence s) of
                     Some wordMatch \<Rightarrow>
                       highlightedWords @
                         [\<lparr>h_word = p_value w, h_definition = p_meaning w,
                           position = jsAdd currentPosition
                                        (Num (indexOf (sentence s) wordMatch))\<rparr>]
                   | None \<Rightarrow> highlightedWords);
                passageContent' = passageContent @ sentence s @ '' ''
            in passageLoop rx sentenceMap ws passageContent'
                 (Num (int (length passageContent'))) highlightedWords'))
      else passageLoop rx sentenceMap ws passageContent currentPosition highlightedWords)"

text \<open>
  \<^verbatim>\<open>generateReadingPassage(words, context, difficulty)\<close>; \<open>fnText\<close> is the text
  that the implementation gives to a built-in function (see \<^const>\<open>toText\<close>).
\<close>

definition generateReadingPassage ::
  "RegExpEngine \<Rightarrow> (string \<Rightarrow> string) \<Rightarrow> ManualDataService \<Rightarrow> PassageWord list \<Rightarrow> string
     \<Rightarrow> string \<Rightarrow> error + ReadingPassage" where
  "generateReadingPassage rx fnText svc ws context dif =
     (let sentenceMap = getSentencesForWords svc (map p_value ws) (Some context) (Some dif);
          intro = generateIntroSentence context
      in case lengthOf intro of
           Inl err \<Rightarrow> Inl err
         | Inr introLength \<Rightarrow>
             (case passageLoop rx sentenceMap ws (toText fnText intro @ '' '')
                     (jsAdd introLength (Num 1)) [] of
                Inl err \<Rightarrow> Inl err
              | Inr (body, highlightedWords) \<Rightarrow>
                  (let passageContent = body @ toText fnText (generateConclusionSentence context);
                       wordCount = length (splitWhitespace passageContent);
                       readingTimeMinutes = nat \<lceil>real wordCount / 200\<rceil>
                   in Inr \<lparr>rp_title = generateTitle context,
                           rp_content = trim passageContent,
                           rp_word_count = wordCount,
                           rp_reading_time_minutes = readingTimeMinutes,
                           rp_highlighted_words = highlightedWords,
                           rp_difficulty = dif,
                           rp_context = context\<rparr>)))"

text \<open>
  \<^verbatim>\<open>generateLightReading(words, context, baseLanguage, targetLanguage, level)\<close>; an
  absent \<open>level\<close> is \<open>intermediate\<close>.
\<close>

definition generateLightReading ::
  "RegExpEngine \<Rightarrow> (string \<Rightarrow> string) \<Rightarrow> ManualDataService \<Rightarrow> PassageWord list \<Rightarrow> string
     \<Rightarrow> string \<Rightarrow> string \<Rightarrow> string option \<Rightarrow> error + ReadingResult" where
  "generateLightReading rx fnText svc ws context baseLanguage targetLanguage lvl =
     (case generateReadingPassage rx fnText svc ws context
             (case lvl of None \<Rightarrow> ''intermediate'' | Some l \<Rightarrow> l) of
        Inl err \<Rightarrow> Inl err
      | Inr readingPassage \<Rightarrow>
          Inr \<lparr>title = rp_title readingPassage,
               content = rp_content readingPassage,
               word_count = rp_word_count readingPassage,
               reading_time_minutes = rp_reading_time_minutes readingPassage,
               highlighted_words = rp_highlighted_words readingPassage,
               list_name = context @ '' Vocabulary'',
               list_context = Some context,
               level = rp_difficulty readingPassage,
               words_included = length (rp_highlighted_words readingPassage),
               total_words_in_list = length ws\<rparr>)"

text \<open>
  A requested word is highlighted when it has a sentence of the context and level and the
  first of them is matched by the expression
  \<^verbatim>\<open>new RegExp(`\\b${word.value}\\b`, 'i')\<close>.
\<close>

definition highlighted ::
  "RegExpEngine \<Rightarrow> ManualDataService \<Rightarrow> string \<Rightarrow> string \<Rightarrow> PassageWord \<Rightarrow> bool" where
  "highlighted rx svc context dif w =
     (case filteredSentences svc (Some context) (Some dif) (p_value w) of
        [] \<Rightarrow> False
      | s # _ \<Rightarrow> rx_match rx (wordPattern (p_value w)) ''i'' (sentence s) \<noteq> None)"

text \<open>A requested word has a sentence of the context and level.\<close>

definition hasSentence :: "ManualDataService \<Rightarrow> string \<Rightarrow> string \<Rightarrow> PassageWord \<Rightarrow> bool" where
  "hasSentence svc context dif w =
     (filteredSentences svc (Some context) (Some dif) (p_value w) \<noteq> [])"

subsection \<open>Example store with sentences\<close>

definition exampleSentence :: "string \<Rightarrow> string \<Rightarrow> string \<Rightarrow> SentenceExample" where
  "exampleSentence text c dif =
     \<lparr>sentence = text, translation = None, s_context = c, s_difficulty = dif,
      s_audio_file = None, context_note = None\<rparr>"

definition sentenceStore :: ManualDataService where
  "sentenceStore =
     \<lparr>definitionsDB = [], 
      sentencesDB =
        [(''bank'', [exampleSentence ''I went to the bank.'' ''daily'' ''beginner'']),
         (''cash'', [exampleSentence ''She paid in cash.'' ''daily'' ''beginner'']),
         (''money'', [exampleSentence ''Money matters.'' ''daily'' ''intermediate'']),
         (''market'', [exampleSentence ''The market opens early.'' ''daily'' ''intermediate''])],
      similarWordsDB = [], distractorsDB = []\<rparr>"

definition passageWord :: "string \<Rightarrow> PassageWord" where
  "passageWord v = \<lparr>p_value = v, p_meaning = ''meaning of '' @ v\<rparr>"

text \<open>The text of a built-in function in the examples.\<close>

definition nativeText :: "string \<Rightarrow> string" where
  "nativeText k = ''function '' @ k @ ''() { [native code] }''"

section \<open>Writes to the content store\<close>

text \<open>
  Every write of the source to the definitions map is
  \<^verbatim>\<open>this.definitionsDB.set(w.toLowerCase(), d)\<close> or
  \<^verbatim>\<open>this.definitionsDB.delete(w.toLowerCase())\<close>. A \<^verbatim>\<open>set\<close> on a present key
  keeps the key's place in the insertion order, as \<^const>\<open>AList.update\<close> does. The
  write-through to the files is not modelled.
\<close>

definition setDefinition :: "ManualDataService \<Rightarrow> string \<Rightarrow> Definition \<Rightarrow> ManualDataService" where
  "setDefinition svc w d =
     svc\<lparr>definitionsDB := AList.update (toLowerCase w) d (definitionsDB svc)\<rparr>"

text \<open>\<^verbatim>\<open>loadDefinitions\<close> on the array read from one file.\<close>

definition loadDefinitionsFile :: "ManualDataService \<Rightarrow> Definition list \<Rightarrow> ManualDataService" where
  "loadDefinitionsFile svc ds = foldl (\<lambda>s d. setDefinition s (word d) d) svc ds"

definition addDefinition :: "ManualDataService \<Rightarrow> Definition \<Rightarrow> ManualDataService" where
  "addDefinition svc d = setDefinition svc (word d) d"

definition addAdminDefinition ::
  "ManualDataService \<Rightarrow> string \<Rightarrow> string \<Rightarrow> (string \<times> string) list option \<Rightarrow> string option
     \<Rightarrow> string option \<Rightarrow> ManualDataService" where
  "addAdminDefinition svc w gen ctxl dif pos =
     setDefinition svc w
       \<lparr>word = toLowerCase w, general = gen,
        contextual = Some (case ctxl of Some c \<Rightarrow> c | None \<Rightarrow> []),
        difficulty = orElse dif ''intermediate'',
        part_of_speech = orElse pos ''noun'',
        pronunciation = None, audio_file = None\<rparr>"

definition updateDefinition ::
  "ManualDataService \<Rightarrow> string \<Rightarrow> string \<Rightarrow> (string \<times> string) list option \<Rightarrow> string option
     \<Rightarrow> string option \<Rightarrow> error + ManualDataService" where
  "updateDefinition svc w gen ctxl dif pos =
     (case map_of (definitionsDB svc) (toLowerCase w) of
        None \<Rightarrow> Inl (Error (''Definition for '' @ dq @ w @ dq @ '' not found''))
      | Some existing \<Rightarrow>
          Inr (setDefinition svc w
                 (existing\<lparr>general := gen,
                    contextual := (case ctxl of Some c \<Rightarrow> Some c | None \<Rightarrow> contextual existing),
                    difficulty := orElse dif (difficulty existing),
                    part_of_speech := orElse pos (part_of_speech existing)\<rparr>)))"

definition removeDefinition :: "ManualDataService \<Rightarrow> string \<Rightarrow> ManualDataService" where
  "removeDefinition svc w =
     svc\<lparr>definitionsDB := AList.delete (toLowerCase w) (definitionsDB svc)\<rparr>"

text \<open>
  \<^verbatim>\<open>loadSentences\<close>, \<^verbatim>\<open>loadSimilarWords\<close> and \<^verbatim>\<open>loadDistractors\<close> on
  one file, whose base name is the key; \<^verbatim>\<open>addSentenceExamples\<close> and
  \<^verbatim>\<open>addSentenceExample\<close>.
\<close>

definition loadSentencesFile ::
  "ManualDataService \<Rightarrow> string \<Rightarrow> SentenceExample list \<Rightarrow> ManualDataService" where
  "loadSentencesFile svc w ss =
     svc\<lparr>sentencesDB := AList.update (toLowerCase w) ss (sentencesDB svc)\<rparr>"

definition loadSimilarWordsFile ::
  "ManualDataService \<Rightarrow> string \<Rightarrow> SimilarWord list \<Rightarrow> ManualDataService" where
  "loadSimilarWordsFile svc w ws =
     svc\<lparr>similarWordsDB := AList.update (toLowerCase w) ws (similarWordsDB svc)\<rparr>"

definition loadDistractorsFile ::
  "ManualDataService \<Rightarrow> string \<Rightarrow> string list \<Rightarrow> ManualDataService" where
  "loadDistractorsFile svc k ds =
     svc\<lparr>distractorsDB := AList.update (toLowerCase k) ds (distractorsDB svc)\<rparr>"

definition addSentenceExamples ::
  "ManualDataService \<Rightarrow> string \<Rightarrow> SentenceExample list \<Rightarrow> ManualDataService" where
  "addSentenceExamples svc w ss =
     (let existing = (case map_of (sentencesDB svc) (toLowerCase w) of Some e \<Rightarrow> e | None \<Rightarrow> [])
      in svc\<lparr>sentencesDB := AList.update (toLowerCase w) (existing @ ss) (sentencesDB svc)\<rparr>)"

definition addSentenceExample ::
  "ManualDataService \<Rightarrow> string \<Rightarrow> string \<Rightarrow> string option \<Rightarrow> string option \<Rightarrow> string option
     \<Rightarrow> ManualDataService" where
  "addSentenceExample svc w text tr ctx dif =
     (let s = \<lparr>sentence = text,
                translation = (if truthy tr then tr else None),
                s_context = orElse ctx ''general'',
                s_difficulty = orElse dif ''intermediate'',
                s_audio_file = None, context_note = None\<rparr>;
          existing = (case map_of (sentencesDB svc) (toLowerCase w) of Some e \<Rightarrow> e | None \<Rightarrow> [])
      in svc\<lparr>sentencesDB := AList.update (toLowerCase w) (existing @ [s]) (sentencesDB svc)\<rparr>)"

definition emptyStore :: ManualDataService where
  "emptyStore = \<lparr>definitionsDB = [], sentencesDB = [], similarWordsDB = [], distractorsDB = []\<rparr>"

text \<open>Every key of a map is its own lower-case form.\<close>

definition lowerKeys :: "(string \<times> 'a) list \<Rightarrow> bool" where
  "lowerKeys al = list_all (\<lambda>k. toLowerCase k = k) (map fst al)"

text \<open>The store states that the loader and the mutation operations can produce.\<close>

inductive reachable :: "ManualDataService \<Rightarrow> bool" where
  reachable_empty: "reachable emptyStore"
| reachable_loadDefinitionsFile: "reachable svc \<Longrightarrow> reachable (loadDefinitionsFile svc ds)"
| reachable_addDefinition: "reachable svc \<Longrightarrow> reachable (addDefinition svc d)"
| reachable_addAdminDefinition:
    "reachable svc \<Longrightarrow> reachable (addAdminDefinition svc w gen ctxl dif pos)"
| reachable_updateDefinition:
    "reachable svc \<Longrightarrow> updateDefinition svc w gen ctxl dif pos = Inr svc' \<Longrightarrow> reachable svc'"
| reachable_removeDefinition: "reachable svc \<Longrightarrow> reachable (removeDefinition svc w)"
| reachable_loadSentencesFile: "reachable svc \<Longrightarrow> reachable (loadSentencesFile svc w ss)"
| reachable_loadSimilarWordsFile: "reachable svc \<Longrightarrow> reachable (loadSimilarWordsFile svc w ws)"
| reachable_loadDistractorsFile: "reachable svc \<Longrightarrow> reachable (loadDistractorsFile svc k ds)"
| reachable_addSentenceExamples: "reachable svc \<Longrightarrow> reachable (addSentenceExamples svc w ss)"
| reachable_addSentenceExample:
    "reachable svc \<Longrightarrow> reachable (addSentenceExample svc w text tr ctx dif)"

section \<open>Data validation (DataLoader.validateDataIntegrity)\<close>

record ValidationStats =
  totalWords :: nat
  wordsWithSentences :: nat
  wordsWithSimilar :: nat
  wordsWithDistractions :: nat
  contextsFound :: "string list"

record DataValidationResult =
  isValid :: bool
  errors :: "string list"
  warnings :: "string list"
  stats :: ValidationStats

text \<open>The variables of the validation loop; \<open>v_contextsFound\<close> is the set in insertion order.\<close>

record ValidationState =
  v_errors :: "string list"
  v_warnings :: "string list"
  v_wordsWithSentences :: nat
  v_wordsWithSimilar :: nat
  v_wordsWithDistractions :: nat
  v_contextsFound :: "string list"

definition addToSet :: "string list \<Rightarrow> string \<Rightarrow> string list" where
  "addToSet xs x = (if x \<in> set xs then xs else xs @ [x])"

definition noDefinitionError :: "string \<Rightarrow> string" where
  "noDefinitionError w = ''No definition found for word '' @ dq @ w @ dq"

text \<open>
  The string that \<^verbatim>\<open>getDefinition(word)\<close> returns when it is called without a
  context (lemma \<open>getDefinition_without_context\<close> below).
\<close>

definition plainLookup :: "ManualDataService \<Rightarrow> string \<Rightarrow> string" where
  "plainLookup svc w =
     (case map_of (definitionsDB svc) (toLowerCase w) of
        None \<Rightarrow> notFoundMessage w
      | Some d \<Rightarrow> general d)"

text \<open>
  The body of the loop over \<^verbatim>\<open>allWords\<close>. The call
  \<^verbatim>\<open>getDefinition(word)\<close> passes no context, so that its result is a string and
  \<^verbatim>\<open>definition.includes\<close> is the method of strings; no other case arises.
\<close>

definition validateWord :: "ManualDataService \<Rightarrow> ValidationState \<Rightarrow> string \<Rightarrow> ValidationState" where
  "validateWord svc st w =
     (let sentences = getSentenceExamples svc w None;
          st1 = (if length sentences > 0
                 then st\<lparr>v_wordsWithSentences := v_wordsWithSentences st + 1,
                         v_contextsFound := foldl addToSet (v_contextsFound st)
                                              (map s_context sentences)\<rparr>
                 else st\<lparr>v_warnings := v_warnings st
                           @ [''Word '' @ dq @ w @ dq @ '' has no example sentences'']\<rparr>);
          similar = getSimilarWords svc w;
          st2 = (if length similar > 0
                 then st1\<lparr>v_wordsWithSimilar := v_wordsWithSimilar st1 + 1\<rparr>
                 else st1);
          distractors = getDistractors svc w None;
          st3 = (if length distractors \<ge> 3
                 then st2\<lparr>v_wordsWithDistractions := v_wordsWithDistractions st2 + 1\<rparr>
                 else st2\<lparr>v_warnings := v_warnings st2
                            @ [''Word '' @ dq @ w @ dq @ '' has insufficient distractors (''
                               @ showNat (length distractors) @ ''/3)'']\<rparr>);
          definition = getDefinition svc w None
      in if (case definition of
               Inr (Str body) \<Rightarrow> includesStr body ''Definition not found''
             | _ \<Rightarrow> False)
         then st3\<lparr>v_errors := v_errors st3 @ [noDefinitionError w]\<rparr>
         else st3)"

text \<open>\<^verbatim>\<open>validateExerciseTemplates(contexts, warnings)\<close>\<close>

definition validateExerciseTemplates :: "string list \<Rightarrow> string list \<Rightarrow> string list" where
  "validateExerciseTemplates contexts ws =
     ws @ map (\<lambda>c. ''No exercise templates found for context '' @ dq @ c @ dq)
            (filter (\<lambda>c. c \<notin> set [''business'', ''daily'', ''technology'', ''sports'']) contexts)"

text \<open>
  \<^verbatim>\<open>validateDataIntegrity()\<close>; \<^verbatim>\<open>validateOrphanedSentences\<close> has an empty body.
  The array \<^verbatim>\<open>Array.from(contextsFound).sort()\<close> is sorted by character codes.
\<close>

definition validateDataIntegrity :: "ManualDataService \<Rightarrow> DataValidationResult" where
  "validateDataIntegrity svc =
     (let allWords = getAllWords svc;
          st = foldl (validateWord svc)
                 \<lparr>v_errors = [], v_warnings = [], v_wordsWithSentences = 0,
                  v_wordsWithSimilar = 0, v_wordsWithDistractions = 0, v_contextsFound = []\<rparr>
                 allWords;
          ws = validateExerciseTemplates (v_contextsFound st) (v_warnings st)
      in \<lparr>isValid = (length (v_errors st) = 0),
          errors = v_errors st,
          warnings = ws,
          stats = \<lparr>totalWords = length allWords,
                    wordsWithSentences = v_wordsWithSentences st,
                    wordsWithSimilar = v_wordsWithSimilar st,
                    wordsWithDistractions = v_wordsWithDistractions st,
                    contextsFound = sort (v_contextsFound st)\<rparr>\<rparr>)"

text \<open>A stored general definition whose text contains the phrase of the not-found message.\<close>

definition phraseDefinition :: Definition where
  "phraseDefinition =
     \<lparr>word = ''Void'', general = ''Definition not found in older dictionaries'',
      contextual = Some [], difficulty = ''advanced'', part_of_speech = ''noun'',
      pronunciation = None, audio_file = None\<rparr>"

section \<open>Properties of the content store\<close>

lemma lowerChar_idem: "lowerChar (lowerChar c) = lowerChar c"
  by (auto simp: lowerChar_def upperLetters_def lowerLetters_def split: if_splits)

lemma toLowerCase_idem: "toLowerCase (toLowerCase s) = toLowerCase s"
  by (simp add: toLowerCase_def lowerChar_idem)


lemma length_generateBasicDistractors: "length (generateBasicDistractors w) = 3"
  by (simp add: generateBasicDistractors_def)

lemma length_getDistractors: "length (getDistractors svc w ctx) = 3"
  by (simp add: getDistractors_def Let_def length_generateBasicDistractors)

lemmas store_evals = bankStore_def curatedStore_def bankDefinition_def toLowerCase_def
  lowerChar_def upperLetters_def lowerLetters_def truthy_def

subsection \<open>Definition lookup\<close>

lemma getDefinition_without_context:
  "getDefinition svc w None = Inr (Str (plainLookup svc w))"
  by (simp add: getDefinition_def plainLookup_def truthy_def split: option.splits)




text \<open>
  The two cases that the resolution order below leaves open. A context that names a member
  of \<^verbatim>\<open>Object.prototype\<close> (in any casing) and has no own entry gives that member, not a
  string; a stored definition without \<^verbatim>\<open>contextual\<close> makes the lookup with a context
  throw.
\<close>

lemma getDefinition_inherited_member:
  "getDefinition bankStore ''bank'' (Some ''Constructor'') = Inr (Inherited ''constructor'')"
  by (simp add: getDefinition_def propertyRead_def jsTruthy_def objectPrototypeMembers_def
      store_evals)

lemma getDefinition_missing_contextual:
  "reachable (loadDefinitionsFile emptyStore [bareDefinition])
   \<and> getDefinition (loadDefinitionsFile emptyStore [bareDefinition]) ''loan'' (Some ''daily'')
       = Inl (TypeError ''daily'')"
proof -
  have "definitionsDB (loadDefinitionsFile emptyStore [bareDefinition])
      = [(''loan'', bareDefinition)]"
    by (simp add: loadDefinitionsFile_def setDefinition_def emptyStore_def bareDefinition_def
        toLowerCase_def lowerChar_def upperLetters_def lowerLetters_def)
  then have "getDefinition (loadDefinitionsFile emptyStore [bareDefinition]) ''loan''
      (Some ''daily'') = Inl (TypeError ''daily'')"
    by (simp add: getDefinition_def bareDefinition_def toLowerCase_def lowerChar_def
        upperLetters_def lowerLetters_def truthy_def)
  moreover have "reachable (loadDefinitionsFile emptyStore [bareDefinition])"
    by (intro reachable.intros)
  ultimately show ?thesis by simp
qed




subsection \<open>Distractor selection\<close>

text \<open>
  C2: for every word and optional context, \<open>getDistractors\<close> returns exactly 3 strings:
  the first 3 entries stored under the composite key \<open>context_word\<close> (both lower-cased)
  when a context is given and that key holds at least 3 entries; otherwise the first 3
  entries stored under the lower-cased word when there are at least 3; otherwise the 3
  synthesized placeholder strings.
\<close>

theorem getDistractors_selection:
  "length (getDistractors svc w ctx) = 3 \<and>
   getDistractors svc w ctx =
     (if truthy ctx \<and> 3 \<le> length (storedDistractors svc (toLowerCase (the ctx) @ ''_'' @ toLowerCase w))
      then take 3 (storedDistractors svc (toLowerCase (the ctx) @ ''_'' @ toLowerCase w))
      else if 3 \<le> length (storedDistractors svc (toLowerCase w))
      then take 3 (storedDistractors svc (toLowerCase w))
      else generateBasicDistractors w)"
  by (auto simp: getDistractors_def contextKey_def storedDistractors_def Let_def
      length_generateBasicDistractors split: option.splits)

theorem getDistractors_selection_witness:
  "getDistractors curatedStore ''Bank'' (Some ''Daily'') = [''a bench'', ''a blanket'', ''a basket'']
   \<and> getDistractors curatedStore ''Bank'' (Some ''sports'') = [''a river'', ''a boat'', ''a bridge'']
   \<and> getDistractors curatedStore ''zephyr'' None = generateBasicDistractors ''zephyr''"
proof -
  have "getDistractors curatedStore ''Bank'' (Some ''Daily'') = [''a bench'', ''a blanket'', ''a basket'']"
    by (subst conjunct2 [OF getDistractors_selection])
      (simp add: store_evals storedDistractors_def)
  moreover have "getDistractors curatedStore ''Bank'' (Some ''sports'') = [''a river'', ''a boat'', ''a bridge'']"
    by (subst conjunct2 [OF getDistractors_selection])
      (simp add: store_evals storedDistractors_def)
  moreover have "getDistractors curatedStore ''zephyr'' None = generateBasicDistractors ''zephyr''"
    by (subst conjunct2 [OF getDistractors_selection])
      (simp add: store_evals storedDistractors_def)
  ultimately show ?thesis by simp
qed

text \<open>
  Two curated entries under \<open>daily_bank\<close> and nothing else: the result is the three
  placeholders, and neither curated entry is part of it.
\<close>

theorem getDistractors_two_curated_counterexample:
  "map_of (distractorsDB bankStore) ''daily_bank'' = Some [''a bench'', ''a blanket'']
   \<and> map_of (distractorsDB bankStore) ''bank'' = None
   \<and> getDistractors bankStore ''bank'' (Some ''daily'')
       = [''incorrect definition A'', ''incorrect definition B'', ''incorrect definition C'']
   \<and> ''a bench'' \<notin> set (getDistractors bankStore ''bank'' (Some ''daily''))
   \<and> ''a blanket'' \<notin> set (getDistractors bankStore ''bank'' (Some ''daily''))"
  by (simp add: getDistractors_def contextKey_def generateBasicDistractors_def Let_def store_evals)

text \<open>
  C3 (as amended): when the distractor store holds exactly 2 curated entries for \<open>bank\<close>
  under context \<open>daily\<close> and no entries under \<open>bank\<close> alone,
  \<open>getDistractors("bank", "daily")\<close> returns the 3 synthesized placeholder strings; the
  curated entries are not used.
\<close>

theorem getDistractors_two_curated:
  assumes "map_of (distractorsDB svc) ''daily_bank'' = Some cs" and "length cs = 2"
    and "map_of (distractorsDB svc) ''bank'' = None"
  shows "getDistractors svc ''bank'' (Some ''daily'')
       = [''incorrect definition A'', ''incorrect definition B'', ''incorrect definition C'']"
  using assms
  by (simp add: getDistractors_def contextKey_def generateBasicDistractors_def Let_def
      toLowerCase_def lowerChar_def upperLetters_def lowerLetters_def truthy_def)

theorem getDistractors_two_curated_witness:
  "map_of (distractorsDB bankStore) ''daily_bank'' = Some [''a bench'', ''a blanket'']
   \<and> length [''a bench'', ''a blanket''] = 2
   \<and> map_of (distractorsDB bankStore) ''bank'' = None
   \<and> getDistractors bankStore ''bank'' (Some ''daily'')
       = [''incorrect definition A'', ''incorrect definition B'', ''incorrect definition C'']"
  using getDistractors_two_curated [of bankStore "[''a bench'', ''a blanket'']"]
  by (simp add: bankStore_def)

section \<open>Properties of the exercise generator\<close>

subsection \<open>Shuffling\<close>

lemma randomFloor_less: "0 < n \<Longrightarrow> randomFloor g n < n"
proof -
  assume n: "0 < n"
  have "g 0 mod 2 ^ 53 < (2::nat) ^ 53" by simp
  then have "(g 0 mod 2 ^ 53) * n < 2 ^ 53 * n" using n by simp
  then show ?thesis
    unfolding randomFloor_def by (simp add: less_mult_imp_div_less mult.commute)
qed

lemma shuffleLoop_mset:
  "k < length xs \<or> k = 0 \<Longrightarrow> mset (fst (shuffleLoop k xs g)) = mset xs"
proof (induction k arbitrary: xs g)
  case 0
  then show ?case by simp
next
  case (Suc k)
  then have i: "Suc k < length xs" by simp
  have j: "randomFloor g (Suc k + 1) < length xs"
    using randomFloor_less [of "Suc k + 1" g] i by simp
  let ?ys = "xs[Suc k := xs ! randomFloor g (Suc k + 1), randomFloor g (Suc k + 1) := xs ! Suc k]"
  have "mset ?ys = mset xs" using mset_swap [OF j i] .
  moreover have "mset (fst (shuffleLoop k ?ys (nextRng g))) = mset ?ys"
    using Suc.IH [of ?ys] i by simp
  ultimately show ?case by (simp add: Let_def)
qed

text \<open>
  C7: for every input sequence and every stream of random draws, \<open>shuffleArray\<close> returns
  a permutation of its input: the same multiset of elements and the same length.
\<close>

theorem shuffleArray_permutation:
  "mset (fst (shuffleArray xs g)) = mset xs \<and> length (fst (shuffleArray xs g)) = length xs"
proof -
  have m: "mset (fst (shuffleArray xs g)) = mset xs"
    unfolding shuffleArray_def by (rule shuffleLoop_mset) (cases xs; simp)
  from mset_eq_length [OF m] m show ?thesis by simp
qed

lemma shuffle_eval: "fst (shuffleArray [1, 2, 3 :: nat] (\<lambda>n. 0)) = [2, 3, 1]"
  by (simp add: shuffleArray_def randomFloor_def nextRng_def Let_def numeral_2_eq_2)

subsection \<open>Answer validation\<close>

lemma includesStr_sublist: "includesStr s sub \<longleftrightarrow> sublist sub s"
  by (induction s) (auto simp: sublist_Cons_right)

lemma includesStr_refl: "includesStr s s"
  by (simp add: includesStr_sublist)

text \<open>
  The threshold of the partial match, in doubles: \<open>90 * 0.7\<close> is
  \<open>62.99999999999999\<close>, below 63, and \<open>10 * 0.7\<close> is exactly 7.
\<close>

lemma bitLength_numeral [simp]:
  "bitLength 0 = 0"
  "bitLength (Suc 0) = 1"
  "bitLength (numeral num.One) = 1"
  "bitLength (numeral (num.Bit0 k)) = Suc (bitLength (numeral k))"
  "bitLength (numeral (num.Bit1 k)) = Suc (bitLength (numeral k))"
  by (simp_all add: bitLength.simps [of 0] bitLength.simps [of "Suc 0"]
      bitLength.simps [of "numeral _"] numeral_Bit0_div_2 numeral_Bit1_div_2)

lemma exceedsSeventyPercent_examples:
  "exceedsSeventyPercent 63 90" "\<not> exceedsSeventyPercent 7 10" "exceedsSeventyPercent 3 4"
  "\<not> exceedsSeventyPercent 0 0"
  by (simp_all add: exceedsSeventyPercent_def roundToDouble_def Let_def)

text \<open>
  The word service accepts \<open>bank!\<close> for \<open>bank\<close>, although the two differ after trimming
  and lower-casing.
\<close>

theorem validateAnswer_word_service_counterexample:
  "isCorrect (ManualWordService_validateAnswer ''bank!'' ''bank'' ''daily'' ''en'' ''en'')
   \<and> normalizeAnswer ''bank!'' \<noteq> normalizeAnswer ''bank''"
  by (simp add: ManualWordService_validateAnswer_def ManualWordService_normalizeAnswer_def
      normalizeAnswer_def trim_def isSpace_def isWordChar_def toLowerCase_def lowerChar_def
      upperLetters_def lowerLetters_def Let_def)

text \<open>
  C5 (as amended): the exercise-layer \<open>validateAnswer\<close> reports \<open>isCorrect\<close> exactly when
  the trimmed, lower-cased answers are equal. The word-service \<open>validateAnswer\<close> reports
  \<open>isCorrect\<close> for every such pair as well, but it is not limited to them: it compares
  after deleting punctuation and accepts partial matches.
\<close>

theorem validateAnswer_normalized_equality:
  "(isCorrect (validateAnswer userAnswer correctAnswer exercise)
      \<longleftrightarrow> normalizeAnswer userAnswer = normalizeAnswer correctAnswer)
   \<and> (normalizeAnswer userAnswer = normalizeAnswer correctAnswer \<longrightarrow>
        isCorrect (ManualWordService_validateAnswer userAnswer correctAnswer context
          baseLanguage targetLanguage))"
  by (auto simp: validateAnswer_def ManualWordService_validateAnswer_def
      ManualWordService_normalizeAnswer_def normalizeAnswer_def Let_def)

theorem validateAnswer_normalized_equality_witness:
  "normalizeAnswer ''  Bank '' = normalizeAnswer ''bank''
   \<and> isCorrect (validateAnswer ''  Bank '' ''bank'' (sentenceCompletionFallback zephyrWord ''daily'' 0))
   \<and> isCorrect (ManualWordService_validateAnswer ''  Bank '' ''bank'' ''daily'' ''en'' ''en'')"
proof -
  have h: "normalizeAnswer ''  Bank '' = normalizeAnswer ''bank''"
    by (simp add: normalizeAnswer_def trim_def isSpace_def toLowerCase_def lowerChar_def
        upperLetters_def lowerLetters_def)
  with validateAnswer_normalized_equality [of "''  Bank ''" "''bank''"
      "sentenceCompletionFallback zephyrWord ''daily'' 0" "''daily''" "''en''" "''en''"]
  show ?thesis by blast
qed

subsection \<open>One exercise for each word\<close>

lemma e_word_generateMultipleChoice:
  "generateMultipleChoice svc w context now g = (e, g') \<Longrightarrow> e_word e = w_value w"
  by (auto simp: generateMultipleChoice_def Let_def split: prod.splits)

lemma e_word_generateMatching:
  "generateMatching svc w context now g = (e, g') \<Longrightarrow> e_word e = w_value w"
  by (auto simp: generateMatching_def Let_def split: prod.splits)

lemma e_word_generateTrueFalse:
  "generateTrueFalse svc w context now g = (e, g') \<Longrightarrow> e_word e = w_value w"
  by (auto simp: generateTrueFalse_def Let_def split: prod.splits if_splits)

lemma e_word_generateSentenceCompletion:
  "generateSentenceCompletion svc w context now g = (e, g') \<Longrightarrow> e_word e = w_value w"
  by (auto simp: generateSentenceCompletion_def sentenceCompletionFallback_def Let_def
      split: option.splits if_splits)

lemma e_word_generateFillInBlank:
  "generateFillInBlank rx svc w context now g = Inr (e, g') \<Longrightarrow> e_word e = w_value w"
  by (auto simp: generateFillInBlank_def Let_def split: if_splits)

lemma generateFillInBlank_returns:
  "rx_valid rx (wordPattern (w_value w)) ''gi'' \<Longrightarrow>
     \<not> isl (generateFillInBlank rx svc w context now g)"
  by (simp add: generateFillInBlank_def Let_def)

lemmas e_word_generators = e_word_generateMultipleChoice e_word_generateMatching
  e_word_generateTrueFalse e_word_generateSentenceCompletion e_word_generateFillInBlank

lemma generateExerciseForWord_Inr:
  assumes "generateExerciseForWord rx svc w context tys now g = Inr r"
  shows "\<exists>e. fst r = Some e \<and> e_word e = w_value w"
  using assms
  unfolding generateExerciseForWord_def Let_def
  by (auto split: if_splits sum.splits prod.splits dest: e_word_generators)

lemma generateExerciseForWord_returns:
  assumes "''fill_in_blank'' \<notin> set tys \<or> rx_valid rx (wordPattern (w_value w)) ''gi''"
  shows "\<not> isl (generateExerciseForWord rx svc w context tys now g)"
proof -
  have "\<not> isl (generateFillInBlank rx svc w context now (nextRng g))"
    if "tys ! randomFloor g (length tys) = ''fill_in_blank''" "randomFloor g (length tys) < length tys"
  proof -
    from that have "''fill_in_blank'' \<in> set tys" by (metis nth_mem)
    with assms show ?thesis by (simp add: generateFillInBlank_returns)
  qed
  then show ?thesis
    unfolding generateExerciseForWord_def Let_def
    by (auto split: sum.splits)
qed

lemma generateExercisesLoop_Inr:
  "generateExercisesLoop rx svc ws context tys clock g acc = Inr es \<Longrightarrow>
     map e_word es = map e_word acc @ map w_value ws"
proof (induction ws arbitrary: clock g acc)
  case Nil
  then show ?case by simp
next
  case (Cons w ws)
  from Cons.prems obtain r where
    r: "generateExerciseForWord rx svc w context tys (clock 0) g = Inr r"
    by (auto split: sum.splits)
  then obtain e where e: "fst r = Some e" "e_word e = w_value w"
    using generateExerciseForWord_Inr by blast
  with r Cons.prems have
    "generateExercisesLoop rx svc ws context tys (\<lambda>n. clock (Suc n)) (snd r) (acc @ [e]) = Inr es"
    by (cases r) simp
  from Cons.IH [OF this] e show ?case by simp
qed

lemma generateExercisesLoop_returns:
  "''fill_in_blank'' \<notin> set tys
     \<or> (\<forall>w \<in> set ws. rx_valid rx (wordPattern (w_value w)) ''gi'') \<Longrightarrow>
     \<not> isl (generateExercisesLoop rx svc ws context tys clock g acc)"
proof (induction ws arbitrary: clock g acc)
  case Nil
  then show ?case by simp
next
  case (Cons w ws)
  then have "\<not> isl (generateExerciseForWord rx svc w context tys (clock 0) g)"
    by (intro generateExerciseForWord_returns) auto
  then obtain r where r: "generateExerciseForWord rx svc w context tys (clock 0) g = Inr r"
    by (cases "generateExerciseForWord rx svc w context tys (clock 0) g") auto
  have "''fill_in_blank'' \<notin> set tys
      \<or> (\<forall>w \<in> set ws. rx_valid rx (wordPattern (w_value w)) ''gi'')"
    using Cons.prems by auto
  from Cons.IH [OF this] r show ?case
    by (cases r) simp
qed

lemma getDistractors_definitionsDB [simp]:
  "getDistractors (svc\<lparr>definitionsDB := defs\<rparr>) = getDistractors svc"
  by (simp add: getDistractors_def fun_eq_iff Let_def)

lemma getSentenceExamples_definitionsDB [simp]:
  "getSentenceExamples (svc\<lparr>definitionsDB := defs\<rparr>) = getSentenceExamples svc"
  by (simp add: getSentenceExamples_def fun_eq_iff Let_def)

lemma generateExerciseForWord_definitionsDB:
  "generateExerciseForWord rx (svc\<lparr>definitionsDB := defs\<rparr>) = generateExerciseForWord rx svc"
  by (simp add: fun_eq_iff generateExerciseForWord_def generateMultipleChoice_def
      generateMatching_def generateTrueFalse_def generateFillInBlank_def
      generateSentenceCompletion_def falseDefinition_def Let_def)

lemma generateExercisesLoop_definitionsDB:
  "generateExercisesLoop rx (svc\<lparr>definitionsDB := defs\<rparr>) ws context tys clock g acc
     = generateExercisesLoop rx svc ws context tys clock g acc"
  by (induction ws arbitrary: clock g acc)
    (simp_all add: generateExerciseForWord_definitionsDB split: sum.splits prod.splits)

lemma randomFloor_one: "randomFloor g (Suc 0) = 0"
  using randomFloor_less [of "Suc 0" g] by simp

lemma generateExerciseForWord_multiple_choice:
  "generateExerciseForWord rx svc w context [''multiple_choice''] now g = Inr r \<Longrightarrow>
     \<exists>e. fst r = Some e \<and> correct e = w_meaning w \<and> e_type e = ''multiple_choice''"
  by (auto simp: generateExerciseForWord_def generateMultipleChoice_def randomFloor_one Let_def
      split: prod.splits)

lemma generateExercisesLoop_multiple_choice:
  "generateExercisesLoop rx svc ws context [''multiple_choice''] clock g acc = Inr es \<Longrightarrow>
     map correct es = map correct acc @ map w_meaning ws
     \<and> map e_type es = map e_type acc @ map (\<lambda>w. ''multiple_choice'') ws"
proof (induction ws arbitrary: clock g acc)
  case Nil
  then show ?case by simp
next
  case (Cons w ws)
  from Cons.prems obtain r where
    r: "generateExerciseForWord rx svc w context [''multiple_choice''] (clock 0) g = Inr r"
    by (auto split: sum.splits)
  then obtain e where e: "fst r = Some e" "correct e = w_meaning w" "e_type e = ''multiple_choice''"
    using generateExerciseForWord_multiple_choice by blast
  with r Cons.prems have
    "generateExercisesLoop rx svc ws context [''multiple_choice''] (\<lambda>n. clock (Suc n)) (snd r)
       (acc @ [e]) = Inr es"
    by (cases r) simp
  from Cons.IH [OF this] e show ?case by simp
qed

text \<open>
  The word \<open>zephyr\<close> has no definition in the store, and \<open>generateExercises\<close> returns one
  exercise for it, with the caller's meaning \<open>???\<close> as the correct answer.
\<close>

theorem generateExercises_unknown_word_counterexample:
  "getDefinition bankStore ''zephyr'' (Some ''daily'') = Inr (Str (notFoundMessage ''zephyr''))
   \<and> \<not> isl (generateExercises plainWordRegExp bankStore [zephyrWord] ''daily''
          [''multiple_choice''] ''en'' ''en'' zeroStream zeroStream)
   \<and> map correct (projr (generateExercises plainWordRegExp bankStore [zephyrWord] ''daily''
          [''multiple_choice''] ''en'' ''en'' zeroStream zeroStream)) = [''???'']"
  by (simp add: getDefinition_def generateExercises_def generateExerciseForWord_def
      generateMultipleChoice_def zephyrWord_def zeroStream_def randomFloor_def nextRng_def
      Let_def store_evals split: prod.splits)

text \<open>
  C4 (as amended): whenever \<open>generateExercises\<close> returns, its result holds exactly one
  Exercise for each word of the request, in the order of the request; no word is skipped.
  When \<open>multiple_choice\<close> is the only allowed type, each of them is a multiple-choice
  exercise whose correct answer is the meaning given in the request. It returns whenever
  \<open>fill_in_blank\<close> is not among the allowed types or every word gives a valid pattern
  \<^verbatim>\<open>\bword\b\<close>. The result does not depend on the definitions of the store: the
  meaning is taken from the request and no definition is looked up.
\<close>

theorem generateExercises_one_per_word:
  "(\<forall>es. generateExercises rx svc ws context tys baseLanguage targetLanguage clock g = Inr es \<longrightarrow>
      length es = length ws \<and> map e_word es = map w_value ws
      \<and> (tys = [''multiple_choice''] \<longrightarrow>
            map correct es = map w_meaning ws
            \<and> map e_type es = map (\<lambda>w. ''multiple_choice'') ws))
   \<and> (''fill_in_blank'' \<notin> set tys
        \<or> (\<forall>w \<in> set ws. rx_valid rx (wordPattern (w_value w)) ''gi'') \<longrightarrow>
        \<not> isl (generateExercises rx svc ws context tys baseLanguage targetLanguage clock g))
   \<and> generateExercises rx (svc\<lparr>definitionsDB := defs\<rparr>) ws context tys baseLanguage
        targetLanguage clock g
      = generateExercises rx svc ws context tys baseLanguage targetLanguage clock g"
proof -
  have "length es = length ws \<and> map e_word es = map w_value ws
      \<and> (tys = [''multiple_choice''] \<longrightarrow>
            map correct es = map w_meaning ws
            \<and> map e_type es = map (\<lambda>w. ''multiple_choice'') ws)"
    if "generateExercises rx svc ws context tys baseLanguage targetLanguage clock g = Inr es" for es
  proof -
    from that have m: "map e_word es = map w_value ws"
      using generateExercisesLoop_Inr [of rx svc ws "context" tys clock g "[]" es]
      by (simp add: generateExercises_def)
    have "map correct es = map w_meaning ws
            \<and> map e_type es = map (\<lambda>w. ''multiple_choice'') ws"
      if "tys = [''multiple_choice'']"
      using generateExercisesLoop_multiple_choice [of rx svc ws "context" clock g "[]" es]
        \<open>generateExercises rx svc ws context tys baseLanguage targetLanguage clock g = Inr es\<close>
        that
      by (simp add: generateExercises_def)
    with map_eq_imp_length_eq [OF m] m show ?thesis by blast
  qed
  then show ?thesis
    unfolding generateExercises_def
    using generateExercisesLoop_returns [of tys ws rx svc "context" clock g "[]"]
    by (auto simp: generateExercisesLoop_definitionsDB generateExercises_def)
qed

theorem generateExercises_one_per_word_witness:
  "''fill_in_blank'' \<notin> set [''multiple_choice'']
   \<and> \<not> isl (generateExercises plainWordRegExp bankStore [zephyrWord] ''daily''
          [''multiple_choice''] ''en'' ''en'' zeroStream zeroStream)
   \<and> map e_word (projr (generateExercises plainWordRegExp bankStore [zephyrWord] ''daily''
          [''multiple_choice''] ''en'' ''en'' zeroStream zeroStream)) = [''zephyr'']
   \<and> map e_type (projr (generateExercises plainWordRegExp bankStore [zephyrWord] ''daily''
          [''multiple_choice''] ''en'' ''en'' zeroStream zeroStream)) = [''multiple_choice'']"
proof -
  let ?r = "generateExercises plainWordRegExp bankStore [zephyrWord] ''daily''
          [''multiple_choice''] ''en'' ''en'' zeroStream zeroStream"
  note t = generateExercises_one_per_word [of plainWordRegExp bankStore "[zephyrWord]" "''daily''"
      "[''multiple_choice'']" "''en''" "''en''" zeroStream zeroStream]
  have h: "''fill_in_blank'' \<notin> set [''multiple_choice'']" by simp
  with t have r: "\<not> isl ?r" by blast
  then obtain es where es: "?r = Inr es" by (cases ?r) auto
  with t have "map e_word es = map w_value [zephyrWord]"
    and "map e_type es = map (\<lambda>w. ''multiple_choice'') [zephyrWord]" by blast+
  with es have "map e_word (projr ?r) = [''zephyr'']"
    and "map e_type (projr ?r) = [''multiple_choice'']" by (simp_all add: zephyrWord_def)
  with h r show ?thesis by blast
qed

subsection \<open>True/false exercises\<close>

text \<open>
  The first distractor stored for \<open>bank\<close> is \<open>a river\<close>. For a request whose meaning of
  \<open>bank\<close> is \<open>a river\<close>, the false branch states the correct meaning and marks it
  \<open>False\<close>.
\<close>

theorem generateTrueFalse_distractor_counterexample:
  "correct (fst (generateTrueFalse curatedStore riverBankWord ''geography'' 0 zeroStream)) = ''False''
   \<and> question (fst (generateTrueFalse curatedStore riverBankWord ''geography'' 0 zeroStream))
       = ''True or False: '' @ meansStatement (w_value riverBankWord) (w_meaning riverBankWord)"
  by (simp add: generateTrueFalse_def falseDefinition_def getDistractors_def contextKey_def
      orElse_def meansStatement_def randomAboveHalf_def riverBankWord_def zeroStream_def
      Let_def store_evals)

lemma meansStatement_inject [simp]: "meansStatement v a = meansStatement v b \<longleftrightarrow> a = b"
  by (simp add: meansStatement_def)

text \<open>
  C6 (as amended): the options of a generated true/false exercise are always
  \<open>['True', 'False']\<close> and \<open>correct\<close> is one of the two. When \<open>correct\<close> is \<open>True\<close> the
  statement is the one built from the word's meaning; when it is \<open>False\<close> the statement is
  the one built from the first distractor (or the default phrase). Provided this substituted
  text differs from the word's meaning, \<open>correct\<close> is \<open>True\<close> exactly when the statement is
  the one built from the meaning.
\<close>

theorem generateTrueFalse_consistent:
  "options (fst (generateTrueFalse svc w context now g)) = Some [''True'', ''False'']
   \<and> (correct (fst (generateTrueFalse svc w context now g)) = ''True''
        \<or> correct (fst (generateTrueFalse svc w context now g)) = ''False'')
   \<and> (correct (fst (generateTrueFalse svc w context now g)) = ''True'' \<longrightarrow>
        question (fst (generateTrueFalse svc w context now g))
          = ''True or False: '' @ meansStatement (w_value w) (w_meaning w))
   \<and> (correct (fst (generateTrueFalse svc w context now g)) = ''False'' \<longrightarrow>
        question (fst (generateTrueFalse svc w context now g))
          = ''True or False: '' @ meansStatement (w_value w) (falseDefinition svc w context))
   \<and> (falseDefinition svc w context \<noteq> w_meaning w \<longrightarrow>
        (correct (fst (generateTrueFalse svc w context now g)) = ''True''
          \<longleftrightarrow> question (fst (generateTrueFalse svc w context now g))
                = ''True or False: '' @ meansStatement (w_value w) (w_meaning w)))"
  by (simp add: generateTrueFalse_def Let_def)

theorem generateTrueFalse_consistent_witness:
  "falseDefinition curatedStore moneyBankWord ''geography'' \<noteq> w_meaning moneyBankWord
   \<and> correct (fst (generateTrueFalse curatedStore moneyBankWord ''geography'' 0 highStream)) = ''True''
   \<and> question (fst (generateTrueFalse curatedStore moneyBankWord ''geography'' 0 highStream))
       = ''True or False: '' @ meansStatement ''bank'' ''financial institution''
   \<and> correct (fst (generateTrueFalse curatedStore moneyBankWord ''geography'' 0 zeroStream)) = ''False''
   \<and> question (fst (generateTrueFalse curatedStore moneyBankWord ''geography'' 0 zeroStream))
       = ''True or False: '' @ meansStatement ''bank'' ''a river''"
proof -
  have fd: "falseDefinition curatedStore moneyBankWord ''geography'' = ''a river''"
    by (simp add: falseDefinition_def getDistractors_def contextKey_def orElse_def
        moneyBankWord_def Let_def store_evals)
  have m: "w_meaning moneyBankWord = ''financial institution''" "w_value moneyBankWord = ''bank''"
    by (simp_all add: moneyBankWord_def)
  have hi: "correct (fst (generateTrueFalse curatedStore moneyBankWord ''geography'' 0 highStream)) = ''True''"
    by (simp add: generateTrueFalse_def randomAboveHalf_def highStream_def Let_def)
  have lo: "correct (fst (generateTrueFalse curatedStore moneyBankWord ''geography'' 0 zeroStream)) = ''False''"
    by (simp add: generateTrueFalse_def randomAboveHalf_def zeroStream_def Let_def)
  note t1 = generateTrueFalse_consistent [of curatedStore moneyBankWord "''geography''" 0 highStream]
  note t2 = generateTrueFalse_consistent [of curatedStore moneyBankWord "''geography''" 0 zeroStream]
  from t1 hi have q1: "question (fst (generateTrueFalse curatedStore moneyBankWord ''geography'' 0 highStream))
       = ''True or False: '' @ meansStatement ''bank'' ''financial institution''"
    unfolding m by blast
  from t2 lo have q2: "question (fst (generateTrueFalse curatedStore moneyBankWord ''geography'' 0 zeroStream))
       = ''True or False: '' @ meansStatement ''bank'' ''a river''"
    unfolding m fd by blast
  from fd m hi lo q1 q2 show ?thesis by simp
qed

section \<open>Properties of the data loader\<close>

subsection \<open>Retry with backoff\<close>

lemma retryLoop_success:
  "a \<le> k \<Longrightarrow> k \<le> n \<Longrightarrow> (\<forall>j. a \<le> j \<and> j < k \<longrightarrow> isl (load j)) \<Longrightarrow> load k = Inr loaded \<Longrightarrow>
     retryLoop load n a le t = (t @ backoffTrace a (Suc k - a), Inr loaded)"
proof (induction "k - a" arbitrary: a le t)
  case 0
  then have "a = k" by simp
  with 0 show ?case by (simp add: retryLoop.simps [of load n k])
next
  case (Suc d)
  then have lt: "a < k" "a < n" "a \<le> n" by simp_all
  with Suc.prems obtain msg where msg: "load a = Inl msg" by (cases "load a") auto
  have d: "d = k - Suc a" using Suc.hyps(2) by simp
  have rest: "retryLoop load n (Suc a) (Some msg) t' = (t' @ backoffTrace (Suc a) (Suc k - Suc a), Inr loaded)" for t'
    using Suc.hyps(1) [OF d, of "Some msg" t'] Suc.prems lt by simp
  have shape: "Suc k - a = Suc (Suc (k - Suc a))" "k - a = Suc (k - Suc a)" using lt by simp_all
  show ?case
    using lt msg rest
    by (subst retryLoop.simps) (simp add: shape)
qed

lemma retryLoop_exhausted:
  "a \<le> Suc n \<Longrightarrow> (\<forall>j. a \<le> j \<and> j \<le> n \<longrightarrow> isl (load j)) \<Longrightarrow>
     retryLoop load n a le t =
       (t @ backoffTrace a (Suc n - a),
        Inl (retryFailureMessage n (if a \<le> n then Some (projl (load n)) else le)))"
proof (induction "Suc n - a" arbitrary: a le t)
  case 0
  then have "a = Suc n" by simp
  then show ?case by (simp add: retryLoop.simps [of load n "Suc n"])
next
  case (Suc d)
  then have le_n: "a \<le> n" by simp
  with Suc.prems obtain msg where msg: "load a = Inl msg" by (cases "load a") auto
  have d: "d = Suc n - Suc a" using Suc.hyps(2) by simp
  have rest: "retryLoop load n (Suc a) (Some msg) t' =
       (t' @ backoffTrace (Suc a) (Suc n - Suc a),
        Inl (retryFailureMessage n (Some (if Suc a \<le> n then projl (load n) else msg))))" for t'
    using Suc.hyps(1) [OF d, of "Some msg" t'] Suc.prems le_n by simp
  show ?case
  proof (cases "a < n")
    case True
    then have shape: "Suc n - a = Suc (Suc (n - Suc a))" "n - a = Suc (n - Suc a)" by simp_all
    from True msg rest show ?thesis
      by (subst retryLoop.simps) (simp add: shape)
  next
    case False
    with le_n have "a = n" by simp
    with msg rest show ?thesis
      by (subst retryLoop.simps) simp
  qed
qed

lemma isAttempt_simps [simp]: "isAttempt (Attempt k)" "\<not> isAttempt (Wait ms)"
  by (simp_all add: isAttempt_def)

lemma retryLoop_attempts:
  "length (filter isAttempt (fst (retryLoop load n a le t)))
     \<le> length (filter isAttempt t) + (Suc n - a)"
proof (induction load n a le t rule: retryLoop.induct)
  case (1 load n a le t)
  show ?case
  proof (cases "a \<le> n")
    case False
    then show ?thesis by (subst retryLoop.simps) simp
  next
    case True
    show ?thesis
    proof (cases "load a")
      case (Inr loaded)
      with True show ?thesis
        by (subst retryLoop.simps) simp
    next
      case (Inl msg)
      from "1.IH" [OF True Inl] True Inl show ?thesis
        by (subst retryLoop.simps) (auto split: if_splits)
    qed
  qed
qed

text \<open>
  C8: \<open>initializeWithRetry(maxAttempts)\<close> calls the full load at most \<open>maxAttempts\<close> times.
  When attempt \<open>k\<close> is the first to succeed, the attempts 1 to \<open>k\<close> are made and no other,
  with a wait of \<open>min(1000 * 2^(j-1), 5000)\<close> milliseconds between the failed attempt \<open>j\<close>
  and attempt \<open>j + 1\<close>, and the statistics of attempt \<open>k\<close> are returned. When all
  \<open>maxAttempts\<close> attempts fail, the same waits are made between them and the error thrown
  carries the number of attempts and the message of the last attempt's error. With
  \<open>maxAttempts = 0\<close> no attempt is made and the error is thrown at once.
\<close>

theorem initializeWithRetry_backoff:
  "(\<forall>k loaded. 1 \<le> k \<and> k \<le> maxRetries \<and> (\<forall>j. 1 \<le> j \<and> j < k \<longrightarrow> isl (loadAllData j))
        \<and> loadAllData k = Inr loaded \<longrightarrow>
      initializeWithRetry loadAllData maxRetries = (backoffTrace 1 k, Inr loaded))
   \<and> (1 \<le> maxRetries \<and> (\<forall>j. 1 \<le> j \<and> j \<le> maxRetries \<longrightarrow> isl (loadAllData j)) \<longrightarrow>
      initializeWithRetry loadAllData maxRetries =
        (backoffTrace 1 maxRetries,
         Inl (''Failed to load data after '' @ showNat maxRetries @ '' attempts. Last error: ''
              @ projl (loadAllData maxRetries))))
   \<and> initializeWithRetry loadAllData 0
       = ([], Inl ''Failed to load data after 0 attempts. Last error: undefined'')
   \<and> length (filter isAttempt (fst (initializeWithRetry loadAllData maxRetries))) \<le> maxRetries"
proof (intro conjI allI impI)
  fix k loaded
  assume "1 \<le> k \<and> k \<le> maxRetries \<and> (\<forall>j. 1 \<le> j \<and> j < k \<longrightarrow> isl (loadAllData j))
        \<and> loadAllData k = Inr loaded"
  then show "initializeWithRetry loadAllData maxRetries = (backoffTrace 1 k, Inr loaded)"
    using retryLoop_success [of 1 k maxRetries loadAllData loaded None "[]"]
    by (simp add: initializeWithRetry_def)
next
  assume "1 \<le> maxRetries \<and> (\<forall>j. 1 \<le> j \<and> j \<le> maxRetries \<longrightarrow> isl (loadAllData j))"
  then show "initializeWithRetry loadAllData maxRetries =
        (backoffTrace 1 maxRetries,
         Inl (''Failed to load data after '' @ showNat maxRetries @ '' attempts. Last error: ''
              @ projl (loadAllData maxRetries)))"
    using retryLoop_exhausted [of 1 maxRetries loadAllData None "[]"]
    by (simp add: initializeWithRetry_def retryFailureMessage_def)
next
  show "initializeWithRetry loadAllData 0
       = ([], Inl ''Failed to load data after 0 attempts. Last error: undefined'')"
    by (simp add: initializeWithRetry_def retryLoop.simps retryFailureMessage_def
        showNat.simps digitChar_def)
next
  show "length (filter isAttempt (fst (initializeWithRetry loadAllData maxRetries))) \<le> maxRetries"
    using retryLoop_attempts [of loadAllData maxRetries 1 None "[]"]
    by (simp add: initializeWithRetry_def)
qed

lemma backoffTrace_three:
  "backoffTrace (Suc 0) 3 = [Attempt (Suc 0), Wait 1000, Attempt 2, Wait 2000, Attempt 3]"
  by (simp add: numeral_3_eq_3 numeral_2_eq_2)

theorem initializeWithRetry_backoff_witness:
  "initializeWithRetry failsTwice 3
     = ([Attempt 1, Wait 1000, Attempt 2, Wait 2000, Attempt 3], Inr sampleStats)
   \<and> initializeWithRetry alwaysFails 3
     = ([Attempt 1, Wait 1000, Attempt 2, Wait 2000, Attempt 3],
        Inl ''Failed to load data after 3 attempts. Last error: failure 3'')"
proof -
  note t1 = initializeWithRetry_backoff [of 3 failsTwice]
  note t2 = initializeWithRetry_backoff [of 3 alwaysFails]
  have "(1::nat) \<le> 3 \<and> (3::nat) \<le> 3 \<and> (\<forall>j. 1 \<le> j \<and> j < 3 \<longrightarrow> isl (failsTwice j))
        \<and> failsTwice 3 = Inr sampleStats"
    by (simp add: failsTwice_def)
  with t1 have a: "initializeWithRetry failsTwice 3 = (backoffTrace 1 3, Inr sampleStats)"
    by blast
  have "(1::nat) \<le> 3 \<and> (\<forall>j. 1 \<le> j \<and> j \<le> 3 \<longrightarrow> isl (alwaysFails j))"
    by (simp add: alwaysFails_def)
  with t2 have b: "initializeWithRetry alwaysFails 3 =
        (backoffTrace 1 3,
         Inl (''Failed to load data after '' @ showNat 3 @ '' attempts. Last error: ''
              @ projl (alwaysFails 3)))"
    by blast
  have s: "showNat 3 = ''3''" by (simp add: showNat.simps digitChar_def)
  from a b show ?thesis
    by (simp add: backoffTrace_three alwaysFails_def s)
qed

section \<open>Properties of the passage composer\<close>

lemma map_of_getSentencesForWords:
  "w \<in> set ws \<Longrightarrow>
     map_of (getSentencesForWords svc ws ctx dif) w = Some (filteredSentences svc ctx dif w)"
  unfolding getSentencesForWords_def
  by (induction ws) auto

lemma highlighted_imp_sentences:
  "highlighted rx svc context dif w \<Longrightarrow> getSentenceExamples svc (p_value w) (Some context) \<noteq> []"
  by (auto simp: highlighted_def filteredSentences_def Let_def split: list.splits if_splits)

lemma length_filter_mono:
  "(\<And>x. x \<in> set xs \<Longrightarrow> P x \<Longrightarrow> Q x) \<Longrightarrow> length (filter P xs) \<le> length (filter Q xs)"
  by (induction xs) auto

lemma passageLoop_highlighted:
  assumes "\<forall>w \<in> set ws. map_of m (p_value w)
             = Some (filteredSentences svc (Some context) (Some dif) (p_value w))"
    and "passageLoop rx m ws pc cp hw = Inr (pc', hw')"
  shows "length hw' = length hw + length (filter (highlighted rx svc context dif) ws)"
  using assms
proof (induction ws arbitrary: pc cp hw)
  case Nil
  then show ?case by simp
next
  case (Cons w ws)
  let ?ss = "filteredSentences svc (Some context) (Some dif) (p_value w)"
  have m: "map_of m (p_value w) = Some ?ss" using Cons.prems(1) by simp
  have rest: "\<forall>w \<in> set ws. map_of m (p_value w)
             = Some (filteredSentences svc (Some context) (Some dif) (p_value w))"
    using Cons.prems(1) by simp
  show ?case
  proof (cases ?ss)
    case Nil
    with m Cons.prems(2) have "passageLoop rx m ws pc cp hw = Inr (pc', hw')" by simp
    from Cons.IH [OF rest this] Nil show ?thesis by (simp add: highlighted_def)
  next
    case (Cons s ss)
    with m Cons.prems(2) have valid: "rx_valid rx (wordPattern (p_value w)) ''i''"
      by (auto simp: Let_def split: if_splits)
    show ?thesis
    proof (cases "rx_match rx (wordPattern (p_value w)) ''i'' (sentence s)")
      case None
      with m Cons valid Cons.prems(2) have
        "passageLoop rx m ws (pc @ sentence s @ '' '')
           (Num (int (length (pc @ sentence s @ '' '')))) hw
           = Inr (pc', hw')"
        by (simp add: Let_def)
      from Cons.IH [OF rest this] Cons None show ?thesis by (simp add: highlighted_def)
    next
      case (Some wordMatch)
      with m Cons valid Cons.prems(2) have
        "passageLoop rx m ws (pc @ sentence s @ '' '')
           (Num (int (length (pc @ sentence s @ '' ''))))
           (hw @ [\<lparr>h_word = p_value w, h_definition = p_meaning w,
                   position = jsAdd cp (Num (indexOf (sentence s) wordMatch))\<rparr>])
           = Inr (pc', hw')"
        by (simp add: Let_def)
      from Cons.IH [OF rest this] Cons Some show ?thesis by (simp add: highlighted_def)
    qed
  qed
qed

lemma passageLoop_returns:
  "\<forall>w \<in> set ws. hasSentence svc context dif w \<longrightarrow> rx_valid rx (wordPattern (p_value w)) ''i'' \<Longrightarrow>
   \<forall>w \<in> set ws. map_of m (p_value w)
             = Some (filteredSentences svc (Some context) (Some dif) (p_value w)) \<Longrightarrow>
   \<not> isl (passageLoop rx m ws pc cp hw)"
  by (induction ws arbitrary: pc cp hw) (auto simp: Let_def hasSentence_def)

text \<open>
  Reads of the tables: a context of the table, a context outside it, and contexts named
  like members of \<^verbatim>\<open>Object.prototype\<close>.
\<close>

lemma tableOrDefault_examples:
  "generateTitle ''daily'' = Str ''Everyday English Conversations''"
  "generateTitle ''cooking'' = Str ''Vocabulary in Context''"
  "generateTitle ''toString'' = Inherited ''toString''"
  "lengthOf (generateIntroSentence ''constructor'') = Inr (Num 1)"
  "lengthOf (generateIntroSentence ''__proto__'') = Inr NaN"
  by (simp_all add: generateTitle_def generateIntroSentence_def tableOrDefault_def jsOr_def
      jsTruthy_def propertyRead_def titles_def intros_def objectPrototypeMembers_def
      lengthOf_def memberLength_def)

text \<open>The three tables have the entry \<open>default\<close>, so that their reads are defined.\<close>

lemma jsOr_defined: "b \<noteq> Undefined \<Longrightarrow> jsOr a b \<noteq> Undefined"
  by (cases a) (auto simp: jsOr_def jsTruthy_def)

lemma generateIntroSentence_defined: "generateIntroSentence c \<noteq> Undefined"
  unfolding generateIntroSentence_def tableOrDefault_def
  by (rule jsOr_defined) (simp add: propertyRead_def intros_def)

lemma lengthOf_defined: "v \<noteq> Undefined \<Longrightarrow> \<exists>n. lengthOf v = Inr n"
  by (cases v) (simp_all add: lengthOf_def)

lemma generateReadingPassage_Inr:
  assumes "generateReadingPassage rx fnText svc ws context dif = Inr p"
  shows "length (rp_highlighted_words p) = length (filter (highlighted rx svc context dif) ws)
         \<and> rp_reading_time_minutes p = nat \<lceil>real (rp_word_count p) / 200\<rceil>"
proof -
  let ?m = "getSentencesForWords svc (map p_value ws) (Some context) (Some dif)"
  let ?intro = "generateIntroSentence context"
  from assms obtain n body hw where
    loop: "passageLoop rx ?m ws (toText fnText ?intro @ '' '') (jsAdd n (Num 1)) []
             = Inr (body, hw)"
    and p: "rp_highlighted_words p = hw"
      "rp_reading_time_minutes p = nat \<lceil>real (rp_word_count p) / 200\<rceil>"
    by (auto simp: generateReadingPassage_def Let_def split: sum.splits prod.splits)
  have "\<forall>w \<in> set ws. map_of ?m (p_value w)
          = Some (filteredSentences svc (Some context) (Some dif) (p_value w))"
    by (simp add: map_of_getSentencesForWords)
  from passageLoop_highlighted [OF this loop] p show ?thesis by simp
qed

lemma generateReadingPassage_returns:
  assumes "\<forall>w \<in> set ws. hasSentence svc context dif w
             \<longrightarrow> rx_valid rx (wordPattern (p_value w)) ''i''"
  shows "\<not> isl (generateReadingPassage rx fnText svc ws context dif)"
proof -
  let ?m = "getSentencesForWords svc (map p_value ws) (Some context) (Some dif)"
  obtain n where n: "lengthOf (generateIntroSentence context) = Inr n"
    using lengthOf_defined [OF generateIntroSentence_defined] by blast
  let ?loop = "passageLoop rx ?m ws (toText fnText (generateIntroSentence context) @ '' '')
      (jsAdd n (Num 1)) []"
  have "\<forall>w \<in> set ws. map_of ?m (p_value w)
          = Some (filteredSentences svc (Some context) (Some dif) (p_value w))"
    by (simp add: map_of_getSentencesForWords)
  with assms have "\<not> isl ?loop" by (rule passageLoop_returns)
  then obtain b where "?loop = Inr b" by (cases ?loop) auto
  with n show ?thesis
    by (simp add: generateReadingPassage_def Let_def split: prod.splits)
qed

lemma generateLightReading_Inr:
  assumes "generateLightReading rx fnText svc ws context baseLanguage targetLanguage lvl = Inr r"
  shows "total_words_in_list r = length ws
     \<and> words_included r
         = length (filter (highlighted rx svc context
                     (case lvl of None \<Rightarrow> ''intermediate'' | Some l \<Rightarrow> l)) ws)
     \<and> reading_time_minutes r = nat \<lceil>real (word_count r) / 200\<rceil>"
  using assms generateReadingPassage_Inr [of rx fnText svc ws "context"]
  by (auto simp: generateLightReading_def split: sum.splits)

lemma generateLightReading_returns:
  assumes "\<forall>w \<in> set ws. hasSentence svc context (case lvl of None \<Rightarrow> ''intermediate'' | Some l \<Rightarrow> l) w
             \<longrightarrow> rx_valid rx (wordPattern (p_value w)) ''i''"
  shows "\<not> isl (generateLightReading rx fnText svc ws context baseLanguage targetLanguage lvl)"
proof -
  let ?p = "generateReadingPassage rx fnText svc ws context
      (case lvl of None \<Rightarrow> ''intermediate'' | Some l \<Rightarrow> l)"
  have "\<not> isl ?p" using assms by (rule generateReadingPassage_returns)
  then obtain p where "?p = Inr p" by (cases ?p) auto
  then show ?thesis
    by (simp add: generateLightReading_def)
qed

lemma highlighted_imp_hasSentence:
  "highlighted rx svc context dif w \<Longrightarrow> hasSentence svc context dif w"
  by (auto simp: highlighted_def hasSentence_def split: list.splits)

lemma patternWord_wordPattern: "patternWord (wordPattern w) = Some w"
  by (simp add: patternWord_def wordPattern_def)

lemmas passage_evals = sentenceStore_def exampleSentence_def passageWord_def
  getSentenceExamples_def filteredSentences_def highlighted_def hasSentence_def
  plainWordRegExp_def patternWord_wordPattern plainWord_def
  matchesHere_def isWordChar_def toLowerCase_def lowerChar_def upperLetters_def
  lowerLetters_def truthy_def Let_def

text \<open>
  Of the three requested words, \<open>bank\<close> and \<open>cash\<close> have an example sentence for the
  context \<open>daily\<close>. Both sentences are of level \<open>beginner\<close>, the request is of the
  default level \<open>intermediate\<close>, and no word is included.
\<close>

theorem generateLightReading_difficulty_counterexample:
  "length (filter (\<lambda>w. getSentenceExamples sentenceStore (p_value w) (Some ''daily'') \<noteq> [])
      [passageWord ''bank'', passageWord ''cash'', passageWord ''zephyr'']) = 2
   \<and> \<not> isl (generateLightReading plainWordRegExp nativeText sentenceStore
          [passageWord ''bank'', passageWord ''cash'', passageWord ''zephyr'']
          ''daily'' ''en'' ''en'' None)
   \<and> words_included (projr (generateLightReading plainWordRegExp nativeText sentenceStore
          [passageWord ''bank'', passageWord ''cash'', passageWord ''zephyr'']
          ''daily'' ''en'' ''en'' None)) = 0
   \<and> total_words_in_list (projr (generateLightReading plainWordRegExp nativeText sentenceStore
          [passageWord ''bank'', passageWord ''cash'', passageWord ''zephyr'']
          ''daily'' ''en'' ''en'' None)) = 3"
proof -
  let ?ws = "[passageWord ''bank'', passageWord ''cash'', passageWord ''zephyr'']"
  let ?r = "generateLightReading plainWordRegExp nativeText sentenceStore ?ws
      ''daily'' ''en'' ''en'' None"
  have "\<forall>w \<in> set ?ws. hasSentence sentenceStore ''daily''
           (case None of None \<Rightarrow> ''intermediate'' | Some l \<Rightarrow> l) w
         \<longrightarrow> rx_valid plainWordRegExp (wordPattern (p_value w)) ''i''"
    by (simp add: passage_evals)
  then have ret: "\<not> isl ?r" by (rule generateLightReading_returns)
  then obtain r where r: "?r = Inr r" by (cases ?r) auto
  note c = generateLightReading_Inr [OF r]
  have h: "filter (hasSentence sentenceStore ''daily'' ''intermediate'') ?ws = []"
    by (simp add: passage_evals)
  have "length (filter (highlighted plainWordRegExp sentenceStore ''daily'' ''intermediate'') ?ws)
      \<le> length (filter (hasSentence sentenceStore ''daily'' ''intermediate'') ?ws)"
    by (rule length_filter_mono) (rule highlighted_imp_hasSentence)
  with h have z: "length (filter (highlighted plainWordRegExp sentenceStore ''daily''
      ''intermediate'') ?ws) = 0"
    by simp
  have s: "length (filter (\<lambda>w. getSentenceExamples sentenceStore (p_value w) (Some ''daily'') \<noteq> []) ?ws) = 2"
    by (simp add: passage_evals)
  from c z s ret r show ?thesis by simp
qed

text \<open>
  C9 (as amended): whenever a passage-composition request returns, \<open>total_words_in_list\<close>
  is the number of requested words; \<open>words_included\<close> is the number of requested words that
  have at least one example sentence for the requested context of the requested level
  (\<open>intermediate\<close> when none is given) and whose first such sentence is matched by the
  regular expression \<^verbatim>\<open>new RegExp(`\\b${word}\\b`, 'i')\<close>, built with the word
  spliced into the pattern as it is; this number is at most the number of requested words
  with an example sentence of the context and level, which is at most the number of those
  with an example sentence for the context; and \<open>reading_time_minutes\<close> is
  \<open>ceil(word_count / 200)\<close>. The request returns whenever the constructor accepts that
  pattern for every requested word that has a sentence of the context and level.
\<close>

theorem generateLightReading_counts:
  "(\<forall>r. generateLightReading rx fnText svc ws context baseLanguage targetLanguage lvl = Inr r \<longrightarrow>
      total_words_in_list r = length ws
      \<and> words_included r
          = length (filter (highlighted rx svc context
                      (case lvl of None \<Rightarrow> ''intermediate'' | Some l \<Rightarrow> l)) ws)
      \<and> words_included r
          \<le> length (filter (hasSentence svc context
                       (case lvl of None \<Rightarrow> ''intermediate'' | Some l \<Rightarrow> l)) ws)
      \<and> words_included r
          \<le> length (filter (\<lambda>w. getSentenceExamples svc (p_value w) (Some context) \<noteq> []) ws)
      \<and> reading_time_minutes r = nat \<lceil>real (word_count r) / 200\<rceil>)
   \<and> ((\<forall>w \<in> set ws.
          hasSentence svc context (case lvl of None \<Rightarrow> ''intermediate'' | Some l \<Rightarrow> l) w
          \<longrightarrow> rx_valid rx (wordPattern (p_value w)) ''i'') \<longrightarrow>
        \<not> isl (generateLightReading rx fnText svc ws context baseLanguage targetLanguage lvl))"
proof (intro conjI allI impI)
  fix r
  assume r: "generateLightReading rx fnText svc ws context baseLanguage targetLanguage lvl = Inr r"
  note c = generateLightReading_Inr [OF r]
  from c show "total_words_in_list r = length ws" by simp
  from c show inc: "words_included r
          = length (filter (highlighted rx svc context
                      (case lvl of None \<Rightarrow> ''intermediate'' | Some l \<Rightarrow> l)) ws)" by simp
  then show "words_included r
          \<le> length (filter (hasSentence svc context
                       (case lvl of None \<Rightarrow> ''intermediate'' | Some l \<Rightarrow> l)) ws)"
    by (simp add: length_filter_mono highlighted_imp_hasSentence)
  from inc show "words_included r
          \<le> length (filter (\<lambda>w. getSentenceExamples svc (p_value w) (Some context) \<noteq> []) ws)"
    by (simp add: length_filter_mono highlighted_imp_sentences)
  from c show "reading_time_minutes r = nat \<lceil>real (word_count r) / 200\<rceil>" by simp
next
  assume "\<forall>w \<in> set ws.
          hasSentence svc context (case lvl of None \<Rightarrow> ''intermediate'' | Some l \<Rightarrow> l) w
          \<longrightarrow> rx_valid rx (wordPattern (p_value w)) ''i''"
  then show "\<not> isl (generateLightReading rx fnText svc ws context baseLanguage targetLanguage lvl)"
    by (rule generateLightReading_returns)
qed

theorem generateLightReading_counts_witness:
  "\<not> isl (generateLightReading plainWordRegExp nativeText sentenceStore
          [passageWord ''money'', passageWord ''market'', passageWord ''zephyr'']
          ''daily'' ''en'' ''en'' None)
   \<and> words_included (projr (generateLightReading plainWordRegExp nativeText sentenceStore
          [passageWord ''money'', passageWord ''market'', passageWord ''zephyr'']
          ''daily'' ''en'' ''en'' None)) = 2
   \<and> total_words_in_list (projr (generateLightReading plainWordRegExp nativeText sentenceStore
          [passageWord ''money'', passageWord ''market'', passageWord ''zephyr'']
          ''daily'' ''en'' ''en'' None)) = 3"
proof -
  let ?ws = "[passageWord ''money'', passageWord ''market'', passageWord ''zephyr'']"
  let ?r = "generateLightReading plainWordRegExp nativeText sentenceStore ?ws
      ''daily'' ''en'' ''en'' None"
  note t = generateLightReading_counts [of plainWordRegExp nativeText sentenceStore ?ws
      "''daily''" "''en''" "''en''" None]
  have "\<forall>w \<in> set ?ws. hasSentence sentenceStore ''daily''
           (case None of None \<Rightarrow> ''intermediate'' | Some l \<Rightarrow> l) w
         \<longrightarrow> rx_valid plainWordRegExp (wordPattern (p_value w)) ''i''"
    by (simp add: passage_evals)
  with t have ret: "\<not> isl ?r" by blast
  then obtain r where r: "?r = Inr r" by (cases ?r) auto
  with t have c: "total_words_in_list r = length ?ws"
    "words_included r = length (filter (highlighted plainWordRegExp sentenceStore ''daily''
        (case None of None \<Rightarrow> ''intermediate'' | Some l \<Rightarrow> l)) ?ws)"
    by blast+
  have h: "length (filter (highlighted plainWordRegExp sentenceStore ''daily'' ''intermediate'') ?ws) = 2"
    by (simp add: passage_evals)
  from c h ret r show ?thesis by simp
qed

section \<open>Properties of the data validation\<close>

lemma lowerKeys_update:
  "lowerKeys al \<Longrightarrow> lowerKeys (AList.update (toLowerCase w) d al)"
  by (induction al) (auto simp: lowerKeys_def toLowerCase_idem)

lemma lowerKeys_delete:
  "lowerKeys al \<Longrightarrow> lowerKeys (AList.delete k al)"
  by (induction al) (auto simp: lowerKeys_def)

lemma lowerKeys_key:
  "lowerKeys al \<Longrightarrow> k \<in> set (map fst al) \<Longrightarrow> toLowerCase k = k"
  by (auto simp: lowerKeys_def list_all_iff)

lemma lowerKeys_setDefinition:
  "lowerKeys (definitionsDB svc) \<Longrightarrow> lowerKeys (definitionsDB (setDefinition svc w d))"
  by (simp add: setDefinition_def lowerKeys_update)

lemma lowerKeys_loadDefinitionsFile:
  "lowerKeys (definitionsDB svc) \<Longrightarrow> lowerKeys (definitionsDB (loadDefinitionsFile svc ds))"
  unfolding loadDefinitionsFile_def
  by (induction ds arbitrary: svc) (simp_all add: lowerKeys_setDefinition)

lemma reachable_lowerKeys:
  "reachable svc \<Longrightarrow> lowerKeys (definitionsDB svc)"
proof (induction rule: reachable.induct)
  case reachable_empty
  then show ?case by (simp add: emptyStore_def lowerKeys_def)
next
  case (reachable_loadDefinitionsFile svc ds)
  then show ?case by (simp add: lowerKeys_loadDefinitionsFile)
next
  case (reachable_addDefinition svc d)
  then show ?case by (simp add: addDefinition_def lowerKeys_setDefinition)
next
  case (reachable_addAdminDefinition svc w gen ctxl dif pos)
  then show ?case by (simp add: addAdminDefinition_def lowerKeys_setDefinition)
next
  case (reachable_updateDefinition svc w gen ctxl dif pos svc')
  then show ?case
    by (auto simp: updateDefinition_def lowerKeys_setDefinition split: option.splits)
next
  case (reachable_removeDefinition svc w)
  then show ?case by (simp add: removeDefinition_def lowerKeys_delete)
next
  case (reachable_loadSentencesFile svc w ss)
  then show ?case by (simp add: loadSentencesFile_def)
next
  case (reachable_loadSimilarWordsFile svc w ws)
  then show ?case by (simp add: loadSimilarWordsFile_def)
next
  case (reachable_loadDistractorsFile svc k ds)
  then show ?case by (simp add: loadDistractorsFile_def)
next
  case (reachable_addSentenceExamples svc w ss)
  then show ?case by (simp add: addSentenceExamples_def Let_def)
next
  case (reachable_addSentenceExample svc w body tr ctx dif)
  then show ?case by (simp add: addSentenceExample_def Let_def)
qed

lemma v_errors_validateWord:
  "v_errors (validateWord svc st w) =
     v_errors st @ (if includesStr (plainLookup svc w) ''Definition not found''
                    then [noDefinitionError w] else [])"
  by (simp add: validateWord_def getDefinition_without_context Let_def)

lemma v_wordsWithDistractions_validateWord:
  "v_wordsWithDistractions (validateWord svc st w) = v_wordsWithDistractions st + 1"
  by (simp add: validateWord_def Let_def length_getDistractors)

lemma v_errors_foldl:
  "v_errors (foldl (validateWord svc) st ws) =
     v_errors st @ map noDefinitionError
       (filter (\<lambda>w. includesStr (plainLookup svc w) ''Definition not found'') ws)"
  by (induction ws arbitrary: st) (simp_all add: v_errors_validateWord)

lemma v_wordsWithDistractions_foldl:
  "v_wordsWithDistractions (foldl (validateWord svc) st ws) = v_wordsWithDistractions st + length ws"
  by (induction ws arbitrary: st) (simp_all add: v_wordsWithDistractions_validateWord)

lemma errors_validateDataIntegrity:
  "errors (validateDataIntegrity svc) =
     map noDefinitionError
       (filter (\<lambda>w. includesStr (plainLookup svc w) ''Definition not found'')
          (getAllWords svc))"
  by (simp add: validateDataIntegrity_def Let_def v_errors_foldl)

lemma isValid_validateDataIntegrity:
  "isValid (validateDataIntegrity svc) \<longleftrightarrow> errors (validateDataIntegrity svc) = []"
  by (simp add: validateDataIntegrity_def Let_def)

lemma distractions_validateDataIntegrity:
  "wordsWithDistractions (stats (validateDataIntegrity svc))
     = totalWords (stats (validateDataIntegrity svc))"
  by (simp add: validateDataIntegrity_def Let_def v_wordsWithDistractions_foldl)

lemma getDefinition_stored_word:
  assumes "reachable svc" and "w \<in> set (getAllWords svc)"
  shows "\<exists>d. (w, d) \<in> set (definitionsDB svc) \<and> map_of (definitionsDB svc) w = Some d
           \<and> plainLookup svc w = general d
           \<and> getDefinition svc w None = Inr (Str (general d))"
proof -
  from assms(2) have k: "w \<in> set (map fst (definitionsDB svc))" by (simp add: getAllWords_def)
  from lowerKeys_key [OF reachable_lowerKeys [OF assms(1)] k] have low: "toLowerCase w = w" .
  from k have "map_of (definitionsDB svc) w \<noteq> None" by (simp add: map_of_eq_None_iff)
  then obtain d where d: "map_of (definitionsDB svc) w = Some d" by blast
  then have "(w, d) \<in> set (definitionsDB svc)" by (rule map_of_SomeD)
  with d low show ?thesis by (auto simp: getDefinition_without_context plainLookup_def)
qed

text \<open>
  The store reached by adding one definition whose general text contains the phrase
  \<open>Definition not found\<close>: the definition of the word is found, and the validation reports
  an error for it.
\<close>

theorem validateDataIntegrity_phrase_counterexample:
  "reachable (addDefinition emptyStore phraseDefinition)
   \<and> getAllWords (addDefinition emptyStore phraseDefinition) = [''void'']
   \<and> getDefinition (addDefinition emptyStore phraseDefinition) ''void'' None
       = Inr (Str ''Definition not found in older dictionaries'')
   \<and> errors (validateDataIntegrity (addDefinition emptyStore phraseDefinition))
       = [noDefinitionError ''void'']
   \<and> \<not> isValid (validateDataIntegrity (addDefinition emptyStore phraseDefinition))"
proof -
  let ?svc = "addDefinition emptyStore phraseDefinition"
  have r: "reachable ?svc" by (intro reachable.intros)
  have db: "definitionsDB ?svc = [(''void'', phraseDefinition)]"
    by (simp add: addDefinition_def setDefinition_def emptyStore_def phraseDefinition_def
        toLowerCase_def lowerChar_def upperLetters_def lowerLetters_def)
  have w: "getAllWords ?svc = [''void'']" by (simp add: getAllWords_def db)
  have gen: "general phraseDefinition = ''Definition not found in older dictionaries''"
    by (simp add: phraseDefinition_def)
  have p: "plainLookup ?svc ''void'' = ''Definition not found in older dictionaries''"
    by (simp add: plainLookup_def db gen toLowerCase_def
        lowerChar_def upperLetters_def lowerLetters_def)
  have g: "getDefinition ?svc ''void'' None
      = Inr (Str ''Definition not found in older dictionaries'')"
    by (simp add: getDefinition_without_context p)
  have e: "errors (validateDataIntegrity ?svc) = [noDefinitionError ''void'']"
    by (simp add: errors_validateDataIntegrity w p)
  then have "\<not> isValid (validateDataIntegrity ?svc)"
    by (simp add: isValid_validateDataIntegrity)
  with r w g e show ?thesis by simp
qed

text \<open>
  C10 (as amended): for every reachable store state, the errors of
  \<open>validateDataIntegrity\<close> are one message for each stored word whose general definition
  contains the phrase \<open>Definition not found\<close>, in the order of the words; when no stored
  general definition contains the phrase, \<open>isValid\<close> is true and the errors are empty. The
  warning for insufficient distractors is never issued: every word is counted in
  \<open>wordsWithDistractions\<close>.
\<close>

theorem validateDataIntegrity_errors:
  assumes "reachable svc"
  shows "errors (validateDataIntegrity svc) =
       map noDefinitionError
         (filter (\<lambda>w. includesStr (general (the (map_of (definitionsDB svc) w)))
                        ''Definition not found'')
            (getAllWords svc))
     \<and> ((\<forall>p \<in> set (definitionsDB svc). \<not> includesStr (general (snd p)) ''Definition not found'')
          \<longrightarrow> isValid (validateDataIntegrity svc) \<and> errors (validateDataIntegrity svc) = [])
     \<and> wordsWithDistractions (stats (validateDataIntegrity svc))
         = totalWords (stats (validateDataIntegrity svc))
     \<and> totalWords (stats (validateDataIntegrity svc)) = length (getAllWords svc)"
proof -
  have same: "plainLookup svc w = general (the (map_of (definitionsDB svc) w))"
    if "w \<in> set (getAllWords svc)" for w
    using getDefinition_stored_word [OF assms that] by auto
  have "filter (\<lambda>w. includesStr (plainLookup svc w) ''Definition not found'')
            (getAllWords svc)
        = filter (\<lambda>w. includesStr (general (the (map_of (definitionsDB svc) w)))
                        ''Definition not found'') (getAllWords svc)"
    by (rule filter_cong) (simp_all add: same)
  then have e: "errors (validateDataIntegrity svc) =
       map noDefinitionError
         (filter (\<lambda>w. includesStr (general (the (map_of (definitionsDB svc) w)))
                        ''Definition not found'')
            (getAllWords svc))"
    by (simp add: errors_validateDataIntegrity)
  have t: "totalWords (stats (validateDataIntegrity svc)) = length (getAllWords svc)"
    by (simp add: validateDataIntegrity_def Let_def)
  have c: "isValid (validateDataIntegrity svc) \<and> errors (validateDataIntegrity svc) = []"
    if clean: "\<forall>p \<in> set (definitionsDB svc).
                 \<not> includesStr (general (snd p)) ''Definition not found''"
  proof -
    have "\<not> includesStr (plainLookup svc w) ''Definition not found''"
      if "w \<in> set (getAllWords svc)" for w
    proof -
      from getDefinition_stored_word [OF assms that] obtain d where
        "(w, d) \<in> set (definitionsDB svc)" and "plainLookup svc w = general d" by blast
      with clean show ?thesis by fastforce
    qed
    then have "errors (validateDataIntegrity svc) = []"
      by (simp add: errors_validateDataIntegrity)
    then show ?thesis
      by (simp add: isValid_validateDataIntegrity)
  qed
  from e c t distractions_validateDataIntegrity [of svc] show ?thesis by blast
qed

theorem validateDataIntegrity_errors_witness:
  "reachable (addDefinition emptyStore bankDefinition)
   \<and> isValid (validateDataIntegrity (addDefinition emptyStore bankDefinition))
   \<and> errors (validateDataIntegrity (addDefinition emptyStore bankDefinition)) = []
   \<and> wordsWithDistractions (stats (validateDataIntegrity (addDefinition emptyStore bankDefinition))) = 1"
proof -
  let ?svc = "addDefinition emptyStore bankDefinition"
  have r: "reachable ?svc" by (intro reachable.intros)
  note t = validateDataIntegrity_errors [OF r]
  have db: "definitionsDB ?svc = [(''bank'', bankDefinition)]"
    by (simp add: addDefinition_def setDefinition_def emptyStore_def bankDefinition_def
        toLowerCase_def lowerChar_def upperLetters_def lowerLetters_def)
  have gen: "general bankDefinition = ''financial institution''"
    by (simp add: bankDefinition_def)
  have "\<forall>p \<in> set (definitionsDB ?svc). \<not> includesStr (general (snd p)) ''Definition not found''"
    by (simp add: db gen)
  with t have v: "isValid (validateDataIntegrity ?svc)" "errors (validateDataIntegrity ?svc) = []"
    by blast+
  from t have "wordsWithDistractions (stats (validateDataIntegrity ?svc)) = length (getAllWords ?svc)"
    by simp
  then have "wordsWithDistractions (stats (validateDataIntegrity ?svc)) = 1"
    by (simp add: getAllWords_def db)
  with r v show ?thesis by simp
qed

end
